theory Spec2Isabelle
  imports Main "HOL-Library.Finite_Map" "HOL-Library.Monad_Syntax"
    "HOL-Library.List_Lexorder" "HOL-Library.Char_ord"
begin

section \<open>The declarations of the repository\<close>

text \<open>
  The repository holds Go type declarations only: three revisions of the \<open>Action\<close>
  resource (\<open>action.go\<close>, \<open>action_types.go\<close> and a third, latest revision that declares
  \<open>BindingSpec\<close> and \<open>Message\<close>) and the \<open>ContainerImage\<close> resource. A declaration is
  data here: a Go type expression, with every struct field carrying its name, its type and
  the text of its \<open>json\<close> struct tag (the empty string where the field has no tag).
\<close>

datatype go_type =
    TString
  | TNamed string
  | TImported string string
  | TPointer go_type
  | TSlice go_type
  | TMap go_type go_type
  | TStruct "go_field list"
and go_field =
    Field string go_type string
  | Embedded go_type string

type_synonym go_file = "(string \<times> go_type) list"

text \<open>The struct shared by the three revisions: \<open>Dependency\<close> and \<open>ParameterBinding\<close>.\<close>

definition Dependency_decl :: go_type where
  "Dependency_decl = TStruct
     [Field ''Type'' TString ''type,omitempty'',
      Field ''ID'' TString ''id,omitempty'']"

definition ParameterBinding_decl :: go_type where
  "ParameterBinding_decl = TStruct
     [Field ''Name'' TString ''name,omitempty'',
      Field ''ConfigMapKeyRef'' (TPointer (TImported ''corev1'' ''ConfigMapKeySelector''))
        ''configMapKeyRef,omitempty'',
      Field ''SecretKeyRef'' (TPointer (TImported ''corev1'' ''SecretKeySelector''))
        ''secretKeyRef,omitempty'']"

definition Action_decl :: go_type where
  "Action_decl = TStruct
     [Embedded (TImported ''metav1'' ''TypeMeta'') '',inline'',
      Embedded (TImported ''metav1'' ''ObjectMeta'') ''metadata,omitempty'',
      Field ''Spec'' (TNamed ''ActionSpec'') ''spec,omitempty'',
      Field ''Status'' (TNamed ''ActionStatus'') ''status,omitempty'']"

text \<open>The parameter lists of the endpoint and of the container variant.\<close>

definition EndpointParameters_decl :: go_type where
  "EndpointParameters_decl = TSlice (TStruct
     [Embedded (TNamed ''ParameterBinding'') '',inline'',
      Field ''Target'' TString ''target,omitempty''])"

definition ContainerParameters_decl :: go_type where
  "ContainerParameters_decl = TSlice (TStruct
     [Embedded (TNamed ''ParameterBinding'') '',inline'',
      Field ''Target'' (TImported ''corev1'' ''EnvVar'') ''target,omitempty''])"

subsection \<open>\<open>action_types.go\<close>\<close>

definition Parameter_decl :: go_type where
  "Parameter_decl = TStruct
     [Field ''Name'' TString ''name,omitempty'',
      Field ''Description'' TString ''description,omitempty'',
      Field ''Required'' TString ''required,omitempty'',
      Field ''Schema'' (TNamed ''Schema'') ''schema,omitempty'']"

definition action_types_go :: go_file where
  "action_types_go =
    [(''Action'', Action_decl),
     (''ActionSpec'', TStruct
        [Field ''DataShape'' (TStruct
           [Field ''In'' (TPointer (TNamed ''Schema'')) ''in,omitempty'',
            Field ''Out'' (TPointer (TNamed ''Schema'')) ''out,omitempty'',
            Field ''Metadata'' (TMap TString TString) ''metadata,omitempty'']) '''',
         Field ''Parameters'' (TMap TString (TNamed ''Parameter'')) '''',
         Embedded (TNamed ''ImplementationSpec'') '',inline'',
         Field ''Meta'' (TPointer (TNamed ''ImplementationSpec'')) ''meta,omitempty'']),
     (''ImplementationSpec'', TStruct
        [Field ''Endpoint'' (TPointer (TStruct
           [Field ''URL'' TString ''url,omitempty'',
            Field ''Parameters'' EndpointParameters_decl ''''])) '''',
         Field ''Container'' (TPointer (TStruct
           [Embedded (TImported ''corev1'' ''Container'') ''container'',
            Field ''Parameters'' ContainerParameters_decl ''''])) '''',
         Field ''Dependency'' (TPointer (TStruct
           [Field ''Dependencies'' (TSlice (TNamed ''Dependency''))
              ''dependencies,omitempty''])) '''']),
     (''Dependency'', Dependency_decl),
     (''Parameter'', Parameter_decl),
     (''Parameter'', Parameter_decl),
     (''ParameterBinding'', ParameterBinding_decl),
     (''EndpointTarget'', TString),
     (''Schema'', TStruct
        [Field ''Type'' TString ''type,omitempty'',
         Field ''Format'' TString ''format,omitempty'',
         Field ''RegistryRef'' TString ''registryKeyRef,omitempty'',
         Field ''ConfigMapKeyRef'' (TPointer (TImported ''corev1'' ''ConfigMapKeySelector''))
           ''configMapKeyRef,omitempty'']),
     (''ActionStatus'', TStruct [])]"

subsection \<open>The latest revision (\<open>BindingSpec\<close>, \<open>Message\<close>, \<open>Metadata\<close>)\<close>

definition action_binding_go :: go_file where
  "action_binding_go =
    [(''Action'', Action_decl),
     (''ActionSpec'', TStruct
        [Field ''Produces'' (TPointer (TNamed ''Message'')) ''produces,omitempty'',
         Field ''Consumes'' (TPointer (TNamed ''Message'')) ''consumes,omitempty'',
         Field ''Parameters'' (TMap TString (TNamed ''Parameter'')) '''',
         Field ''Binding'' (TPointer (TNamed ''BindingSpec'')) ''binding,omitempty'',
         Field ''Meta'' (TPointer (TNamed ''BindingSpec'')) ''meta,omitempty'']),
     (''BindingSpec'', TStruct
        [Field ''HTTP'' (TPointer (TStruct
           [Field ''URL'' TString ''url,omitempty'',
            Field ''Parameters'' EndpointParameters_decl '''',
            Field ''Container'' (TPointer (TStruct
              [Embedded (TImported ''corev1'' ''Container'') ''container'',
               Field ''Parameters'' ContainerParameters_decl '''',
               Field ''Metadata'' (TNamed ''Metadata'') ''metadata,omitempty''])) ''''])) '''',
         Field ''Dependency'' (TPointer (TStruct
           [Field ''Dependencies'' (TSlice (TNamed ''Dependency''))
              ''dependencies,omitempty'',
            Field ''Metadata'' (TNamed ''Metadata'') ''metadata,omitempty''])) '''']),
     (''Dependency'', Dependency_decl),
     (''Parameter'', TStruct
        [Field ''Name'' TString ''name,omitempty'',
         Field ''Description'' TString ''description,omitempty'',
         Field ''Required'' TString ''required,omitempty'',
         Field ''Deprecated'' TString ''deprecated,omitempty'',
         Field ''Schema'' (TNamed ''Schema'') ''schema,omitempty'']),
     (''ParameterBinding'', ParameterBinding_decl),
     (''EndpointTarget'', TString),
     (''Metadata'', TNamed ''Metadata''),
     (''Message'', TStruct
        [Embedded (TNamed ''ContentType'') ''contentType,omitempty'',
         Field ''Schema'' (TNamed ''Schema'') ''schema,omitempty'',
         Field ''Metadata'' (TNamed ''Metadata'') ''metadata,omitempty'']),
     (''Schema'', TStruct
        [Field ''Type'' TString ''type,omitempty'',
         Field ''Format'' TString ''format,omitempty'',
         Field ''RegistryRef'' TString ''registryKeyRef,omitempty'',
         Field ''ConfigMapKeyRef'' (TPointer (TImported ''corev1'' ''ConfigMapKeySelector''))
           ''configMapKeyRef,omitempty'',
         Field ''Metadata'' (TNamed ''Metadata'') ''metadata,omitempty'']),
     (''ActionStatus'', TStruct [])]"

subsection \<open>\<open>action.go\<close>\<close>

definition action_go :: go_file where
  "action_go =
    [(''Action'', Action_decl),
     (''ActionSpec'', TStruct
        [Field ''DataShape'' (TStruct
           [Field ''In'' (TPointer (TNamed ''Schema'')) ''int,omitempty'',
            Field ''Out'' (TPointer (TNamed ''Schema'')) ''our,omitempty'',
            Field ''Metadata'' (TMap TString TString) ''metadata,omitempty'']) '''',
         Field ''Parameters'' (TMap TString (TNamed ''Parameter'')) '''',
         Embedded (TNamed ''ImplementationSpec'') '',inline'',
         Field ''Meta'' (TPointer (TNamed ''ImplementationSpec'')) ''meta,omitempty'']),
     (''ImplementationSpec'', TStruct
        [Field ''Endpoint'' (TPointer (TStruct
           [Field ''URL'' (TImported ''url'' ''URL'') ''url,omitempty''])) '''',
         Field ''Container'' (TPointer (TStruct
           [Embedded (TImported ''corev1'' ''Container'') ''container''])) '''',
         Field ''Dependency'' (TPointer (TStruct
           [Field ''Dependencies'' (TSlice (TNamed ''Dependency''))
              ''dependencies,omitempty''])) '''']),
     (''Dependency'', Dependency_decl),
     (''Parameter'', TStruct
        [Field ''Name'' TString ''name,omitempty'',
         Field ''Description'' TString ''description,omitempty'',
         Field ''Required'' TString ''required,omitempty'',
         Field ''Type'' (TStruct
           [Field ''Name'' TString '''',
            Field ''Schema'' (TPointer (TNamed ''Schema'')) ''schema,omitempty'']) '''']),
     (''Schema'', TStruct
        [Field ''Type'' TString ''type,omitempty'',
         Field ''RegistryRef'' TString ''registryKeyRef,omitempty'',
         Field ''ConfigMapKeyRef'' (TPointer (TImported ''corev1'' ''ConfigMapKeySelector''))
           ''configMapKeyRef,omitempty'']),
     (''ActionStatus'', TStruct [])]"

subsection \<open>Reading a file of declarations\<close>

text \<open>All declarations a file makes under one name, in the order they are written.\<close>

definition declarations_of :: "go_file \<Rightarrow> string \<Rightarrow> go_type list" where
  "declarations_of file n = map snd (filter (\<lambda>d. fst d = n) file)"

text \<open>
  The underlying type of a type expression: a named type stands for the type its
  declaration gives it, and that one again for its own underlying type. The chase is
  bounded by a number of steps; \<open>None\<close> says that no type other than a name was reached.
\<close>

fun underlying :: "go_file \<Rightarrow> nat \<Rightarrow> go_type \<Rightarrow> go_type option" where
  "underlying file 0 t = None"
| "underlying file (Suc k) (TNamed n) =
     (case map_of file n of None \<Rightarrow> None | Some t \<Rightarrow> underlying file k t)"
| "underlying file (Suc k) t = Some t"

fun field_type :: "go_field \<Rightarrow> go_type" where
  "field_type (Field n t tag) = t"
| "field_type (Embedded t tag) = t"

text \<open>
  Selecting a field as a Go selector expression does: by its name (an embedded field is
  named after its type), looking through a pointer, and through a slice to the struct of
  its elements. A path of names walks into the anonymous structs nested in a declaration.
\<close>

fun base_name :: "go_type \<Rightarrow> string" where
  "base_name (TNamed n) = n"
| "base_name (TImported p n) = n"
| "base_name (TPointer t) = base_name t"
| "base_name t = []"

fun field_name :: "go_field \<Rightarrow> string" where
  "field_name (Field n t tag) = n"
| "field_name (Embedded t tag) = base_name t"

fun field_tag :: "go_field \<Rightarrow> string" where
  "field_tag (Field n t tag) = tag"
| "field_tag (Embedded t tag) = tag"

fun fields_of :: "go_type \<Rightarrow> go_field list" where
  "fields_of (TStruct fs) = fs"
| "fields_of (TPointer t) = fields_of t"
| "fields_of (TSlice t) = fields_of t"
| "fields_of t = []"

definition field_named :: "go_type \<Rightarrow> string \<Rightarrow> go_field option" where
  "field_named t n = find (\<lambda>f. field_name f = n) (fields_of t)"

fun select :: "go_type \<Rightarrow> string list \<Rightarrow> go_field option" where
  "select t [] = None"
| "select t [n] = field_named t n"
| "select t (n # ns) =
     (case field_named t n of None \<Rightarrow> None | Some f \<Rightarrow> select (field_type f) ns)"

definition field_at :: "go_file \<Rightarrow> string \<Rightarrow> string list \<Rightarrow> go_field option" where
  "field_at file ty path = (case map_of file ty of None \<Rightarrow> None | Some t \<Rightarrow> select t path)"

definition type_at :: "go_file \<Rightarrow> string \<Rightarrow> string list \<Rightarrow> go_type option" where
  "type_at file ty path =
     (if path = [] then map_of file ty else map_option field_type (field_at file ty path))"

definition tag_at :: "go_file \<Rightarrow> string \<Rightarrow> string list \<Rightarrow> string option" where
  "tag_at file ty path = map_option field_tag (field_at file ty path)"

definition members_at :: "go_file \<Rightarrow> string \<Rightarrow> string list \<Rightarrow> string list" where
  "members_at file ty path =
     (case type_at file ty path of None \<Rightarrow> [] | Some t \<Rightarrow> map field_name (fields_of t))"

text \<open>Every field a type expression declares, those of nested anonymous structs included.\<close>

primrec nested_fields :: "go_type \<Rightarrow> go_field list"
  and nested_fields_field :: "go_field \<Rightarrow> go_field list" where
  "nested_fields TString = []"
| "nested_fields (TNamed n) = []"
| "nested_fields (TImported p n) = []"
| "nested_fields (TPointer t) = nested_fields t"
| "nested_fields (TSlice t) = nested_fields t"
| "nested_fields (TMap k v) = nested_fields k @ nested_fields v"
| "nested_fields (TStruct fs) = concat (map nested_fields_field fs)"
| "nested_fields_field (Field n t tag) = Field n t tag # nested_fields t"
| "nested_fields_field (Embedded t tag) = Embedded t tag # nested_fields t"

subsection \<open>The \<open>json\<close> struct tag\<close>

text \<open>
  Package \<open>encoding/json\<close> reads a tag as a comma-separated list: the first part is the
  key of the field, the others are options, of which it knows \<open>omitempty\<close> (and
  \<open>string\<close>); an option it does not know, such as \<open>inline\<close>, has no effect. A field with
  no key in its tag is written under its Go name. An embedded struct with no key in its
  tag has no key of its own: its fields are written as members of the enclosing object.
  A tag that is just \<open>-\<close> leaves the field out.
\<close>

fun split_commas :: "string \<Rightarrow> string list" where
  "split_commas [] = [[]]"
| "split_commas (c # cs) =
     (if c = CHR '','' then [] # split_commas cs
      else (case split_commas cs of [] \<Rightarrow> [[c]] | p # ps \<Rightarrow> (c # p) # ps))"

definition tag_name :: "string \<Rightarrow> string" where
  "tag_name tag = hd (split_commas tag)"

definition omitempty :: "string \<Rightarrow> bool" where
  "omitempty tag = (''omitempty'' \<in> set (tl (split_commas tag)))"

fun json_key :: "go_field \<Rightarrow> string option" where
  "json_key (Field n t tag) =
     (if tag = ''-'' then None
      else if tag_name tag = [] then Some n
      else Some (tag_name tag))"
| "json_key (Embedded t tag) =
     (if tag = ''-'' then None
      else if tag_name tag = [] then None
      else Some (tag_name tag))"

definition wire_key :: "go_file \<Rightarrow> string \<Rightarrow> string list \<Rightarrow> string option" where
  "wire_key file ty path =
     (case field_at file ty path of None \<Rightarrow> None | Some f \<Rightarrow> json_key f)"

definition all_keys :: "go_file \<Rightarrow> string list" where
  "all_keys file = concat (map (\<lambda>d. List.map_filter json_key (nested_fields (snd d))) file)"

text \<open>
  Go values, and the values a type has. A value of a named type is a value of the type
  it is declared as; a struct value holds one value per field; a pointer is nil or refers
  to a value; a value of an imported type is opaque.
\<close>

datatype go_val =
    VString string
  | VOpaque
  | VNil
  | VRef go_val
  | VSlice "go_val list"
  | VMap "(go_val \<times> go_val) list"
  | VStruct "go_val list"

inductive has_type :: "go_file \<Rightarrow> go_type \<Rightarrow> go_val \<Rightarrow> bool" for pkg where
  T_string: "has_type pkg TString (VString s)"
| T_imported: "has_type pkg (TImported p n) VOpaque"
| T_nil: "has_type pkg (TPointer t) VNil"
| T_ref: "has_type pkg t v \<Longrightarrow> has_type pkg (TPointer t) (VRef v)"
| T_slice: "\<forall>v \<in> set vs. has_type pkg t v \<Longrightarrow> has_type pkg (TSlice t) (VSlice vs)"
| T_map: "\<forall>e \<in> set es. has_type pkg kt (fst e) \<and> has_type pkg vt (snd e)
     \<Longrightarrow> has_type pkg (TMap kt vt) (VMap es)"
| T_struct: "length fs = length vs
     \<Longrightarrow> \<forall>i < length fs. has_type pkg (field_type (fs ! i)) (vs ! i)
     \<Longrightarrow> has_type pkg (TStruct fs) (VStruct vs)"
| T_named: "map_of pkg n = Some t \<Longrightarrow> has_type pkg t v \<Longrightarrow> has_type pkg (TNamed n) v"

inductive_cases has_type_struct: "has_type pkg (TStruct fs) v"

text \<open>Which fields of a struct value are populated, that is, not nil.\<close>

fun populated :: "go_val \<Rightarrow> bool list" where
  "populated (VStruct vs) = map (\<lambda>v. v \<noteq> VNil) vs"
| "populated v = []"

section \<open>Values of \<open>action_types.go\<close> and their wire representation\<close>

text \<open>
  A struct is a record with the fields of the Go declaration. A pointer is an option
  (\<open>None\<close> is nil). A slice or a map whose tag says \<open>omitempty\<close> is a list or a finite
  map: the nil and the empty one are both left out of the document, and are not told
  apart here. A slice or a map without \<open>omitempty\<close> is an option of a list or of a map,
  since nil is written as \<open>null\<close> and the empty one as \<open>[]\<close> or \<open>{}\<close>. The struct
  \<open>Parameter\<close>, declared twice with the same fields, is one record.
\<close>

subsection \<open>Strings\<close>

text \<open>
  A Go string is a sequence of bytes, and a character is a byte here. \<open>encoding/json\<close>
  writes and reads UTF-8: in every string it writes, and in every string it reads, a byte
  that does not begin the well-formed encoding of a code point is replaced by the
  replacement character U+FFFD, the bytes \<open>EF BF BD\<close>. Well-formed is what
  \<open>utf8.DecodeRune\<close> accepts: one byte below \<open>80\<close>; a first byte \<open>C2\<close> to \<open>DF\<close> and one
  more; \<open>E0\<close> to \<open>EF\<close> and two more; \<open>F0\<close> to \<open>F4\<close> and three more; the further bytes
  between \<open>80\<close> and \<open>BF\<close>, the second one in a smaller range after \<open>E0\<close>, \<open>ED\<close>, \<open>F0\<close>
  and \<open>F4\<close> (no overlong form, no surrogate, nothing above U+10FFFF).
\<close>

definition byte_in :: "nat \<Rightarrow> nat \<Rightarrow> char \<Rightarrow> bool" where
  "byte_in lo hi c = (lo \<le> of_char c \<and> (of_char c :: nat) \<le> hi)"

definition second_byte :: "char \<Rightarrow> char \<Rightarrow> bool" where
  "second_byte a b =
     (if of_char a = (224::nat) then byte_in 160 191 b
      else if of_char a = (237::nat) then byte_in 128 159 b
      else if of_char a = (240::nat) then byte_in 144 191 b
      else if of_char a = (244::nat) then byte_in 128 143 b
      else byte_in 128 191 b)"

text \<open>The number of bytes of the well-formed encoding a string begins with; 0 when it
  begins with none.\<close>

fun rune_size :: "string \<Rightarrow> nat" where
  "rune_size [] = 0"
| "rune_size (a # bs) =
     (if (of_char a :: nat) < 128 then 1
      else if byte_in 194 223 a then
        (case bs of
           b # cs \<Rightarrow> if second_byte a b then 2 else 0
         | [] \<Rightarrow> 0)
      else if byte_in 224 239 a then
        (case bs of
           b # c # ds \<Rightarrow> if second_byte a b \<and> byte_in 128 191 c then 3 else 0
         | _ \<Rightarrow> 0)
      else if byte_in 240 244 a then
        (case bs of
           b # c # d # es \<Rightarrow>
             if second_byte a b \<and> byte_in 128 191 c \<and> byte_in 128 191 d then 4 else 0
         | _ \<Rightarrow> 0)
      else 0)"

definition replacement_character :: string where
  "replacement_character = [CHR 0xEF, CHR 0xBF, CHR 0xBD]"

text \<open>The first argument counts the bytes still to copy of an encoding found well
  formed.\<close>

fun coerce_from :: "nat \<Rightarrow> string \<Rightarrow> string" where
  "coerce_from k [] = []"
| "coerce_from (Suc k) (a # bs) = a # coerce_from k bs"
| "coerce_from 0 (a # bs) =
     (case rune_size (a # bs) of
        0 \<Rightarrow> replacement_character @ coerce_from 0 bs
      | Suc n \<Rightarrow> a # coerce_from n bs)"

definition utf8_coerce :: "string \<Rightarrow> string" where
  "utf8_coerce s = coerce_from 0 s"

definition valid_utf8 :: "string \<Rightarrow> bool" where
  "valid_utf8 s = (utf8_coerce s = s)"

subsection \<open>Documents\<close>

text \<open>
  A document is a JSON tree: the text, with the escapes of its strings resolved. The
  members of an object are a finite map from keys, so two objects that differ in the order
  of their keys only are equal, and no object has two members with one key. A number holds
  its literal text.
\<close>

datatype json =
    JNull
  | JBool bool
  | JNumber string
  | JString string
  | JArray "json list"
  | JObject "(string, json) fmap"

definition object :: "(string \<times> json) list \<Rightarrow> json" where
  "object members = JObject (fmap_of_list members)"

text \<open>The keys of the members of an object.\<close>

fun member_keys :: "json \<Rightarrow> string fset" where
  "member_keys (JObject m) = fmdom m"
| "member_keys j = {||}"

text \<open>The member of an object under a key; \<open>null\<close> when there is none.\<close>

fun lookup_member :: "json \<Rightarrow> string \<Rightarrow> json" where
  "lookup_member (JObject m) k = (case fmlookup m k of None \<Rightarrow> JNull | Some j \<Rightarrow> j)"
| "lookup_member j k = JNull"

text \<open>
  A value of a struct type imported from another package (\<open>corev1.Container\<close>,
  \<open>corev1.EnvVar\<close>, \<open>corev1.ConfigMapKeySelector\<close>, \<open>corev1.SecretKeySelector\<close>,
  \<open>metav1.ObjectMeta\<close>) is held as the members of the object it is written as. The
  declarations of these types are not part of the repository: which objects are read as
  a value of such a type, and as which value, is for their packages to say, and so is
  how the zero value is written. Both are parameters here.
\<close>

datatype imported = Imported "(string, json) fmap"

record imported_types =
  zero_ObjectMeta :: imported
  zero_Container :: imported
  zero_EnvVar :: imported
  read_ObjectMeta :: "(string, json) fmap \<Rightarrow> imported option"
  read_Container :: "(string, json) fmap \<Rightarrow> imported option"
  read_EnvVar :: "(string, json) fmap \<Rightarrow> imported option"
  read_ConfigMapKeySelector :: "(string, json) fmap \<Rightarrow> imported option"
  read_SecretKeySelector :: "(string, json) fmap \<Rightarrow> imported option"

subsection \<open>The structs\<close>

record Dependency =
  Dependency_Type :: string
  Dependency_ID :: string

record Schema =
  Schema_Type :: string
  Schema_Format :: string
  Schema_RegistryRef :: string
  Schema_ConfigMapKeyRef :: "imported option"

record Parameter =
  Parameter_Name :: string
  Parameter_Description :: string
  Parameter_Required :: string
  Parameter_Schema :: Schema

record ParameterBinding =
  ParameterBinding_Name :: string
  ParameterBinding_ConfigMapKeyRef :: "imported option"
  ParameterBinding_SecretKeyRef :: "imported option"

text \<open>The anonymous structs of \<open>ImplementationSpec\<close> and of \<open>ActionSpec\<close>, named after
  the field they are the type of.\<close>

record Endpoint_Parameter =
  Endpoint_Parameter_ParameterBinding :: ParameterBinding
  Endpoint_Parameter_Target :: string

record Endpoint_struct =
  Endpoint_URL :: string
  Endpoint_Parameters :: "Endpoint_Parameter list option"

record Container_Parameter =
  Container_Parameter_ParameterBinding :: ParameterBinding
  Container_Parameter_Target :: imported

record Container_struct =
  Container_Container :: imported
  Container_Parameters :: "Container_Parameter list option"

record Dependency_struct =
  Dependency_Dependencies :: "Dependency list"

record ImplementationSpec =
  ImplementationSpec_Endpoint :: "Endpoint_struct option"
  ImplementationSpec_Container :: "Container_struct option"
  ImplementationSpec_Dependency :: "Dependency_struct option"

record DataShape_struct =
  DataShape_In :: "Schema option"
  DataShape_Out :: "Schema option"
  DataShape_Metadata :: "(string, string) fmap"

record ActionSpec =
  ActionSpec_DataShape :: DataShape_struct
  ActionSpec_Parameters :: "(string, Parameter) fmap option"
  ActionSpec_ImplementationSpec :: ImplementationSpec
  ActionSpec_Meta :: "ImplementationSpec option"

datatype ActionStatus = ActionStatus

text \<open>
  \<open>metav1.TypeMeta\<close> is embedded in \<open>Action\<close> with no key in its tag, so its two fields
  (\<open>Kind\<close>, tagged \<open>kind,omitempty\<close>, and \<open>APIVersion\<close>, tagged \<open>apiVersion,omitempty\<close>, in
  package \<open>metav1\<close>) are written as members of the \<open>Action\<close> object itself.
\<close>

record TypeMeta =
  TypeMeta_Kind :: string
  TypeMeta_APIVersion :: string

record Action =
  Action_TypeMeta :: TypeMeta
  Action_ObjectMeta :: imported
  Action_Spec :: ActionSpec
  Action_Status :: ActionStatus

subsection \<open>Serialization\<close>

text \<open>
  \<open>json.Marshal\<close> writes a struct as an object with one member per field, under the
  key of the field. A field tagged \<open>omitempty\<close> is left out when its value is empty: a
  string, slice or map of length zero, or a nil pointer. A struct value is never empty,
  so \<open>omitempty\<close> on a field of struct type leaves nothing out. Without \<open>omitempty\<close>, a
  nil pointer, slice or map is written as \<open>null\<close>. A string is written with its
  ill-formed bytes replaced.
\<close>

definition marshal_string :: "string \<Rightarrow> json" where
  "marshal_string s = JString (utf8_coerce s)"

definition string_omitempty :: "string \<Rightarrow> string \<Rightarrow> (string \<times> json) list" where
  "string_omitempty k s = (if s = [] then [] else [(k, marshal_string s)])"

definition pointer_omitempty ::
    "string \<Rightarrow> ('a \<Rightarrow> json) \<Rightarrow> 'a option \<Rightarrow> (string \<times> json) list" where
  "pointer_omitempty k enc p = (case p of None \<Rightarrow> [] | Some x \<Rightarrow> [(k, enc x)])"

definition slice_omitempty ::
    "string \<Rightarrow> ('a \<Rightarrow> json) \<Rightarrow> 'a list \<Rightarrow> (string \<times> json) list" where
  "slice_omitempty k enc xs = (if xs = [] then [] else [(k, JArray (map enc xs))])"

text \<open>
  A map with string keys is written as an object, its keys in the order of their bytes
  and, as every string, with the ill-formed bytes replaced. Should two keys be written
  alike, the text has two members with one key; the tree keeps the later one, as a reader
  of the text would.
\<close>

definition keyed :: "('a \<Rightarrow> 'b) \<Rightarrow> (string, 'a) fmap \<Rightarrow> (string, 'b) fmap" where
  "keyed f m =
     fmap_of_list (map (\<lambda>(k, v). (utf8_coerce k, f v)) (rev (sorted_list_of_fmap m)))"

definition marshal_map :: "('a \<Rightarrow> json) \<Rightarrow> (string, 'a) fmap \<Rightarrow> json" where
  "marshal_map enc m = JObject (keyed enc m)"

definition map_omitempty ::
    "string \<Rightarrow> ('a \<Rightarrow> json) \<Rightarrow> (string, 'a) fmap \<Rightarrow> (string \<times> json) list" where
  "map_omitempty k enc m = (if m = fmempty then [] else [(k, marshal_map enc m)])"

definition nullable :: "('a \<Rightarrow> json) \<Rightarrow> 'a option \<Rightarrow> json" where
  "nullable enc p = (case p of None \<Rightarrow> JNull | Some x \<Rightarrow> enc x)"

definition marshal_imported :: "imported \<Rightarrow> json" where
  "marshal_imported x = (case x of Imported members \<Rightarrow> JObject members)"

definition marshal_Dependency :: "Dependency \<Rightarrow> json" where
  "marshal_Dependency d = object
     (string_omitempty ''type'' (Dependency_Type d)
      @ string_omitempty ''id'' (Dependency_ID d))"

definition marshal_Schema :: "Schema \<Rightarrow> json" where
  "marshal_Schema s = object
     (string_omitempty ''type'' (Schema_Type s)
      @ string_omitempty ''format'' (Schema_Format s)
      @ string_omitempty ''registryKeyRef'' (Schema_RegistryRef s)
      @ pointer_omitempty ''configMapKeyRef'' marshal_imported (Schema_ConfigMapKeyRef s))"

definition marshal_Parameter :: "Parameter \<Rightarrow> json" where
  "marshal_Parameter p = object
     (string_omitempty ''name'' (Parameter_Name p)
      @ string_omitempty ''description'' (Parameter_Description p)
      @ string_omitempty ''required'' (Parameter_Required p)
      @ [(''schema'', marshal_Schema (Parameter_Schema p))])"

text \<open>The members of an embedded \<open>ParameterBinding\<close>, written into the enclosing object.\<close>

definition members_ParameterBinding :: "ParameterBinding \<Rightarrow> (string \<times> json) list" where
  "members_ParameterBinding b =
     string_omitempty ''name'' (ParameterBinding_Name b)
     @ pointer_omitempty ''configMapKeyRef'' marshal_imported (ParameterBinding_ConfigMapKeyRef b)
     @ pointer_omitempty ''secretKeyRef'' marshal_imported (ParameterBinding_SecretKeyRef b)"

definition marshal_Endpoint_Parameter :: "Endpoint_Parameter \<Rightarrow> json" where
  "marshal_Endpoint_Parameter p = object
     (members_ParameterBinding (Endpoint_Parameter_ParameterBinding p)
      @ string_omitempty ''target'' (Endpoint_Parameter_Target p))"

definition marshal_Endpoint :: "Endpoint_struct \<Rightarrow> json" where
  "marshal_Endpoint e = object
     (string_omitempty ''url'' (Endpoint_URL e)
      @ [(''Parameters'',
          nullable (\<lambda>ps. JArray (map marshal_Endpoint_Parameter ps)) (Endpoint_Parameters e))])"

definition marshal_Container_Parameter :: "Container_Parameter \<Rightarrow> json" where
  "marshal_Container_Parameter p = object
     (members_ParameterBinding (Container_Parameter_ParameterBinding p)
      @ [(''target'', marshal_imported (Container_Parameter_Target p))])"

definition marshal_Container :: "Container_struct \<Rightarrow> json" where
  "marshal_Container c = object
     [(''container'', marshal_imported (Container_Container c)),
      (''Parameters'',
       nullable (\<lambda>ps. JArray (map marshal_Container_Parameter ps)) (Container_Parameters c))]"

definition marshal_Dependency_struct :: "Dependency_struct \<Rightarrow> json" where
  "marshal_Dependency_struct d = object
     (slice_omitempty ''dependencies'' marshal_Dependency (Dependency_Dependencies d))"

definition members_ImplementationSpec :: "ImplementationSpec \<Rightarrow> (string \<times> json) list" where
  "members_ImplementationSpec i =
     [(''Endpoint'', nullable marshal_Endpoint (ImplementationSpec_Endpoint i)),
      (''Container'', nullable marshal_Container (ImplementationSpec_Container i)),
      (''Dependency'', nullable marshal_Dependency_struct (ImplementationSpec_Dependency i))]"

definition marshal_ImplementationSpec :: "ImplementationSpec \<Rightarrow> json" where
  "marshal_ImplementationSpec i = object (members_ImplementationSpec i)"

definition marshal_DataShape :: "DataShape_struct \<Rightarrow> json" where
  "marshal_DataShape d = object
     (pointer_omitempty ''in'' marshal_Schema (DataShape_In d)
      @ pointer_omitempty ''out'' marshal_Schema (DataShape_Out d)
      @ map_omitempty ''metadata'' marshal_string (DataShape_Metadata d))"

definition marshal_ActionSpec :: "ActionSpec \<Rightarrow> json" where
  "marshal_ActionSpec s = object
     ([(''DataShape'', marshal_DataShape (ActionSpec_DataShape s)),
       (''Parameters'', nullable (marshal_map marshal_Parameter) (ActionSpec_Parameters s))]
      @ members_ImplementationSpec (ActionSpec_ImplementationSpec s)
      @ pointer_omitempty ''meta'' marshal_ImplementationSpec (ActionSpec_Meta s))"

definition marshal_ActionStatus :: "ActionStatus \<Rightarrow> json" where
  "marshal_ActionStatus s = object []"

definition marshal_Action :: "Action \<Rightarrow> json" where
  "marshal_Action a = object
     (string_omitempty ''kind'' (TypeMeta_Kind (Action_TypeMeta a))
      @ string_omitempty ''apiVersion'' (TypeMeta_APIVersion (Action_TypeMeta a))
      @ [(''metadata'', marshal_imported (Action_ObjectMeta a)),
         (''spec'', marshal_ActionSpec (Action_Spec a)),
         (''status'', marshal_ActionStatus (Action_Status a))])"

subsection \<open>Deserialization\<close>

text \<open>
  \<open>json.Unmarshal\<close> fills a zero value from an object: a member is stored in the field
  it matches, a member that matches no field is ignored, and a field with no member keeps
  its zero value. \<open>null\<close> sets a pointer, slice or map to nil and leaves any other value
  as it is, at the top of the document too. A member whose JSON type does not fit the
  field (a number or a boolean for a string field, a string for a struct) is an error,
  and the result is \<open>None\<close> then.

  A member matches the field whose key is its own, and else the field whose key is its
  own but for the case of the letters. The letters are compared as \<open>bytes.EqualFold\<close>
  compares them: besides the two cases of an ASCII letter, the long s (U+017F, bytes
  \<open>C5 BF\<close>) is equal to \<open>s\<close> and the Kelvin sign (U+212A, bytes \<open>E2 84 AA\<close>) to \<open>k\<close>. No
  other code point is equal to an ASCII character, and every key of a field of
  \<open>action_types.go\<close> is ASCII; \<open>fold_key\<close> maps a key to the capital letters it is
  compared by, and leaves all other bytes as they are.
\<close>

fun fold_key :: "string \<Rightarrow> string" where
  "fold_key [] = []"
| "fold_key (a # bs) =
     (if byte_in 97 122 a then char_of (of_char a - (32::nat)) # fold_key bs
      else
        (case bs of
           [] \<Rightarrow> [a]
         | b # cs \<Rightarrow>
             if a = CHR 0xC5 \<and> b = CHR 0xBF then CHR ''S'' # fold_key cs
             else
               (case cs of
                  [] \<Rightarrow> a # fold_key bs
                | c # ds \<Rightarrow>
                    if a = CHR 0xE2 \<and> b = CHR 0x84 \<and> c = CHR 0xAA then CHR ''K'' # fold_key ds
                    else a # fold_key bs)))"

text \<open>
  The members of an object that match a field but for the case, in the order of their
  keys; and the member stored in the field. When several members match one field,
  \<open>encoding/json\<close> stores them one after the other in the order of the text, which the
  tree does not keep: the member with the key of the field itself is the one taken here,
  and without it the one with the greatest key.
\<close>

definition folded_members :: "(string, json) fmap \<Rightarrow> string \<Rightarrow> (string \<times> json) list" where
  "folded_members m n = sorted_list_of_fmap (fmfilter (\<lambda>k. fold_key k = fold_key n) m)"

definition find_member :: "(string, json) fmap \<Rightarrow> string \<Rightarrow> json option" where
  "find_member m n =
     (case fmlookup m n of
        Some j \<Rightarrow> Some j
      | None \<Rightarrow> (case rev (folded_members m n) of [] \<Rightarrow> None | (k, j) # ms \<Rightarrow> Some j))"

definition get_member ::
    "(json \<Rightarrow> 'a option) \<Rightarrow> 'a \<Rightarrow> (string, json) fmap \<Rightarrow> string \<Rightarrow> 'a option" where
  "get_member dec absent m k =
     (case find_member m k of
        None \<Rightarrow> Some absent
      | Some JNull \<Rightarrow> Some absent
      | Some j \<Rightarrow> dec j)"

text \<open>A string is stored with its ill-formed bytes replaced.\<close>

fun dec_string :: "json \<Rightarrow> string option" where
  "dec_string (JString s) = Some (utf8_coerce s)"
| "dec_string JNull = Some []"
| "dec_string j = None"

definition dec_pointer :: "(json \<Rightarrow> 'a option) \<Rightarrow> json \<Rightarrow> 'a option option" where
  "dec_pointer dec j = map_option Some (dec j)"

text \<open>An element of an array and a value of an object: \<open>null\<close> leaves the zero value.\<close>

definition dec_element :: "(json \<Rightarrow> 'a option) \<Rightarrow> 'a \<Rightarrow> json \<Rightarrow> 'a option" where
  "dec_element dec zero j = (case j of JNull \<Rightarrow> Some zero | _ \<Rightarrow> dec j)"

fun dec_slice :: "(json \<Rightarrow> 'a option) \<Rightarrow> 'a \<Rightarrow> json \<Rightarrow> 'a list option" where
  "dec_slice dec zero (JArray js) = those (map (dec_element dec zero) js)"
| "dec_slice dec zero j = None"

text \<open>
  The keys of a map are strings as any other, stored with their ill-formed bytes
  replaced. Of two members whose keys are stored alike the later one in the text stays;
  the text is taken in the order of the keys here.
\<close>

fun dec_map :: "(json \<Rightarrow> 'a option) \<Rightarrow> 'a \<Rightarrow> json \<Rightarrow> (string, 'a) fmap option" where
  "dec_map dec zero (JObject m) =
     (if fmpred (\<lambda>k j. dec_element dec zero j \<noteq> None) m
      then Some (keyed (\<lambda>j. the (dec_element dec zero j)) m)
      else None)"
| "dec_map dec zero j = None"

text \<open>A value of an imported struct type is read from an object, by the reader given for
  the type.\<close>

fun unmarshal_imported ::
    "((string, json) fmap \<Rightarrow> imported option) \<Rightarrow> json \<Rightarrow> imported option" where
  "unmarshal_imported reader (JObject m) = reader m"
| "unmarshal_imported reader j = None"

definition zero_Dependency :: Dependency where
  "zero_Dependency = \<lparr>Dependency_Type = [], Dependency_ID = []\<rparr>"

fun unmarshal_Dependency :: "json \<Rightarrow> Dependency option" where
  "unmarshal_Dependency (JObject m) = do {
     t \<leftarrow> get_member dec_string [] m ''type'';
     i \<leftarrow> get_member dec_string [] m ''id'';
     Some \<lparr>Dependency_Type = t, Dependency_ID = i\<rparr> }"
| "unmarshal_Dependency JNull = Some zero_Dependency"
| "unmarshal_Dependency j = None"

definition zero_Schema :: Schema where
  "zero_Schema = \<lparr>Schema_Type = [], Schema_Format = [], Schema_RegistryRef = [],
     Schema_ConfigMapKeyRef = None\<rparr>"

fun unmarshal_Schema :: "imported_types \<Rightarrow> json \<Rightarrow> Schema option" where
  "unmarshal_Schema z (JObject m) = do {
     t \<leftarrow> get_member dec_string [] m ''type'';
     f \<leftarrow> get_member dec_string [] m ''format'';
     r \<leftarrow> get_member dec_string [] m ''registryKeyRef'';
     c \<leftarrow> get_member (dec_pointer (unmarshal_imported (read_ConfigMapKeySelector z)))
            None m ''configMapKeyRef'';
     Some \<lparr>Schema_Type = t, Schema_Format = f, Schema_RegistryRef = r,
       Schema_ConfigMapKeyRef = c\<rparr> }"
| "unmarshal_Schema z JNull = Some zero_Schema"
| "unmarshal_Schema z j = None"

definition zero_Parameter :: Parameter where
  "zero_Parameter = \<lparr>Parameter_Name = [], Parameter_Description = [],
     Parameter_Required = [], Parameter_Schema = zero_Schema\<rparr>"

fun unmarshal_Parameter :: "imported_types \<Rightarrow> json \<Rightarrow> Parameter option" where
  "unmarshal_Parameter z (JObject m) = do {
     n \<leftarrow> get_member dec_string [] m ''name'';
     d \<leftarrow> get_member dec_string [] m ''description'';
     r \<leftarrow> get_member dec_string [] m ''required'';
     s \<leftarrow> get_member (unmarshal_Schema z) zero_Schema m ''schema'';
     Some \<lparr>Parameter_Name = n, Parameter_Description = d, Parameter_Required = r,
       Parameter_Schema = s\<rparr> }"
| "unmarshal_Parameter z JNull = Some zero_Parameter"
| "unmarshal_Parameter z j = None"

definition zero_ParameterBinding :: ParameterBinding where
  "zero_ParameterBinding = \<lparr>ParameterBinding_Name = [],
     ParameterBinding_ConfigMapKeyRef = None, ParameterBinding_SecretKeyRef = None\<rparr>"

definition fields_ParameterBinding ::
    "imported_types \<Rightarrow> (string, json) fmap \<Rightarrow> ParameterBinding option" where
  "fields_ParameterBinding z m = do {
     n \<leftarrow> get_member dec_string [] m ''name'';
     c \<leftarrow> get_member (dec_pointer (unmarshal_imported (read_ConfigMapKeySelector z)))
            None m ''configMapKeyRef'';
     s \<leftarrow> get_member (dec_pointer (unmarshal_imported (read_SecretKeySelector z)))
            None m ''secretKeyRef'';
     Some \<lparr>ParameterBinding_Name = n, ParameterBinding_ConfigMapKeyRef = c,
       ParameterBinding_SecretKeyRef = s\<rparr> }"

definition zero_Endpoint_Parameter :: Endpoint_Parameter where
  "zero_Endpoint_Parameter = \<lparr>Endpoint_Parameter_ParameterBinding = zero_ParameterBinding,
     Endpoint_Parameter_Target = []\<rparr>"

fun unmarshal_Endpoint_Parameter :: "imported_types \<Rightarrow> json \<Rightarrow> Endpoint_Parameter option" where
  "unmarshal_Endpoint_Parameter z (JObject m) = do {
     b \<leftarrow> fields_ParameterBinding z m;
     t \<leftarrow> get_member dec_string [] m ''target'';
     Some \<lparr>Endpoint_Parameter_ParameterBinding = b, Endpoint_Parameter_Target = t\<rparr> }"
| "unmarshal_Endpoint_Parameter z JNull = Some zero_Endpoint_Parameter"
| "unmarshal_Endpoint_Parameter z j = None"

definition zero_Endpoint :: Endpoint_struct where
  "zero_Endpoint = \<lparr>Endpoint_URL = [], Endpoint_Parameters = None\<rparr>"

fun unmarshal_Endpoint :: "imported_types \<Rightarrow> json \<Rightarrow> Endpoint_struct option" where
  "unmarshal_Endpoint z (JObject m) = do {
     u \<leftarrow> get_member dec_string [] m ''url'';
     ps \<leftarrow> get_member
             (dec_pointer (dec_slice (unmarshal_Endpoint_Parameter z) zero_Endpoint_Parameter))
             None m ''Parameters'';
     Some \<lparr>Endpoint_URL = u, Endpoint_Parameters = ps\<rparr> }"
| "unmarshal_Endpoint z JNull = Some zero_Endpoint"
| "unmarshal_Endpoint z j = None"

definition zero_Container_Parameter :: "imported_types \<Rightarrow> Container_Parameter" where
  "zero_Container_Parameter z = \<lparr>Container_Parameter_ParameterBinding = zero_ParameterBinding,
     Container_Parameter_Target = zero_EnvVar z\<rparr>"

fun unmarshal_Container_Parameter :: "imported_types \<Rightarrow> json \<Rightarrow> Container_Parameter option" where
  "unmarshal_Container_Parameter z (JObject m) = do {
     b \<leftarrow> fields_ParameterBinding z m;
     t \<leftarrow> get_member (unmarshal_imported (read_EnvVar z)) (zero_EnvVar z) m ''target'';
     Some \<lparr>Container_Parameter_ParameterBinding = b, Container_Parameter_Target = t\<rparr> }"
| "unmarshal_Container_Parameter z JNull = Some (zero_Container_Parameter z)"
| "unmarshal_Container_Parameter z j = None"

definition zero_Container_struct :: "imported_types \<Rightarrow> Container_struct" where
  "zero_Container_struct z =
     \<lparr>Container_Container = zero_Container z, Container_Parameters = None\<rparr>"

fun unmarshal_Container :: "imported_types \<Rightarrow> json \<Rightarrow> Container_struct option" where
  "unmarshal_Container z (JObject m) = do {
     c \<leftarrow> get_member (unmarshal_imported (read_Container z)) (zero_Container z) m ''container'';
     ps \<leftarrow> get_member (dec_pointer (dec_slice (unmarshal_Container_Parameter z)
              (zero_Container_Parameter z))) None m ''Parameters'';
     Some \<lparr>Container_Container = c, Container_Parameters = ps\<rparr> }"
| "unmarshal_Container z JNull = Some (zero_Container_struct z)"
| "unmarshal_Container z j = None"

definition zero_Dependency_struct :: Dependency_struct where
  "zero_Dependency_struct = \<lparr>Dependency_Dependencies = []\<rparr>"

fun unmarshal_Dependency_struct :: "json \<Rightarrow> Dependency_struct option" where
  "unmarshal_Dependency_struct (JObject m) = do {
     ds \<leftarrow> get_member (dec_slice unmarshal_Dependency zero_Dependency) [] m ''dependencies'';
     Some \<lparr>Dependency_Dependencies = ds\<rparr> }"
| "unmarshal_Dependency_struct JNull = Some zero_Dependency_struct"
| "unmarshal_Dependency_struct j = None"

definition zero_ImplementationSpec :: ImplementationSpec where
  "zero_ImplementationSpec = \<lparr>ImplementationSpec_Endpoint = None,
     ImplementationSpec_Container = None, ImplementationSpec_Dependency = None\<rparr>"

definition fields_ImplementationSpec ::
    "imported_types \<Rightarrow> (string, json) fmap \<Rightarrow> ImplementationSpec option" where
  "fields_ImplementationSpec z m = do {
     e \<leftarrow> get_member (dec_pointer (unmarshal_Endpoint z)) None m ''Endpoint'';
     c \<leftarrow> get_member (dec_pointer (unmarshal_Container z)) None m ''Container'';
     d \<leftarrow> get_member (dec_pointer unmarshal_Dependency_struct) None m ''Dependency'';
     Some \<lparr>ImplementationSpec_Endpoint = e, ImplementationSpec_Container = c,
       ImplementationSpec_Dependency = d\<rparr> }"

fun unmarshal_ImplementationSpec :: "imported_types \<Rightarrow> json \<Rightarrow> ImplementationSpec option" where
  "unmarshal_ImplementationSpec z (JObject m) = fields_ImplementationSpec z m"
| "unmarshal_ImplementationSpec z JNull = Some zero_ImplementationSpec"
| "unmarshal_ImplementationSpec z j = None"

definition zero_DataShape :: DataShape_struct where
  "zero_DataShape = \<lparr>DataShape_In = None, DataShape_Out = None,
     DataShape_Metadata = fmempty\<rparr>"

fun unmarshal_DataShape :: "imported_types \<Rightarrow> json \<Rightarrow> DataShape_struct option" where
  "unmarshal_DataShape z (JObject m) = do {
     i \<leftarrow> get_member (dec_pointer (unmarshal_Schema z)) None m ''in'';
     out \<leftarrow> get_member (dec_pointer (unmarshal_Schema z)) None m ''out'';
     md \<leftarrow> get_member (dec_map dec_string []) fmempty m ''metadata'';
     Some \<lparr>DataShape_In = i, DataShape_Out = out, DataShape_Metadata = md\<rparr> }"
| "unmarshal_DataShape z JNull = Some zero_DataShape"
| "unmarshal_DataShape z j = None"

definition zero_ActionSpec :: ActionSpec where
  "zero_ActionSpec = \<lparr>ActionSpec_DataShape = zero_DataShape, ActionSpec_Parameters = None,
     ActionSpec_ImplementationSpec = zero_ImplementationSpec, ActionSpec_Meta = None\<rparr>"

fun unmarshal_ActionSpec :: "imported_types \<Rightarrow> json \<Rightarrow> ActionSpec option" where
  "unmarshal_ActionSpec z (JObject m) = do {
     d \<leftarrow> get_member (unmarshal_DataShape z) zero_DataShape m ''DataShape'';
     ps \<leftarrow> get_member (dec_pointer (dec_map (unmarshal_Parameter z) zero_Parameter))
             None m ''Parameters'';
     i \<leftarrow> fields_ImplementationSpec z m;
     meta \<leftarrow> get_member (dec_pointer (unmarshal_ImplementationSpec z)) None m ''meta'';
     Some \<lparr>ActionSpec_DataShape = d, ActionSpec_Parameters = ps,
       ActionSpec_ImplementationSpec = i, ActionSpec_Meta = meta\<rparr> }"
| "unmarshal_ActionSpec z JNull = Some zero_ActionSpec"
| "unmarshal_ActionSpec z j = None"

fun unmarshal_ActionStatus :: "json \<Rightarrow> ActionStatus option" where
  "unmarshal_ActionStatus (JObject m) = Some ActionStatus"
| "unmarshal_ActionStatus JNull = Some ActionStatus"
| "unmarshal_ActionStatus j = None"

definition zero_Action :: "imported_types \<Rightarrow> Action" where
  "zero_Action z = \<lparr>Action_TypeMeta = \<lparr>TypeMeta_Kind = [], TypeMeta_APIVersion = []\<rparr>,
     Action_ObjectMeta = zero_ObjectMeta z, Action_Spec = zero_ActionSpec,
     Action_Status = ActionStatus\<rparr>"

fun unmarshal_Action :: "imported_types \<Rightarrow> json \<Rightarrow> Action option" where
  "unmarshal_Action z (JObject m) = do {
     k \<leftarrow> get_member dec_string [] m ''kind'';
     v \<leftarrow> get_member dec_string [] m ''apiVersion'';
     om \<leftarrow> get_member (unmarshal_imported (read_ObjectMeta z)) (zero_ObjectMeta z) m ''metadata'';
     s \<leftarrow> get_member (unmarshal_ActionSpec z) zero_ActionSpec m ''spec'';
     st \<leftarrow> get_member unmarshal_ActionStatus ActionStatus m ''status'';
     Some \<lparr>Action_TypeMeta = \<lparr>TypeMeta_Kind = k, TypeMeta_APIVersion = v\<rparr>,
       Action_ObjectMeta = om, Action_Spec = s, Action_Status = st\<rparr> }"
| "unmarshal_Action z JNull = Some (zero_Action z)"
| "unmarshal_Action z j = None"

subsection \<open>Values that are written and read back as they are\<close>

text \<open>
  A value of an imported type that its reader gives back from the object the value is
  written as; and, struct by struct, the values all of whose strings (the keys of maps
  included) are well-formed UTF-8 and all of whose values of imported types are given
  back in this way.
\<close>

definition readable :: "((string, json) fmap \<Rightarrow> imported option) \<Rightarrow> imported \<Rightarrow> bool" where
  "readable reader x = (case x of Imported m \<Rightarrow> reader m = Some x)"

definition readable_pointer ::
    "((string, json) fmap \<Rightarrow> imported option) \<Rightarrow> imported option \<Rightarrow> bool" where
  "readable_pointer reader p = (case p of None \<Rightarrow> True | Some x \<Rightarrow> readable reader x)"

definition well_formed_Dependency :: "Dependency \<Rightarrow> bool" where
  "well_formed_Dependency d = (valid_utf8 (Dependency_Type d) \<and> valid_utf8 (Dependency_ID d))"

definition well_formed_Schema :: "imported_types \<Rightarrow> Schema \<Rightarrow> bool" where
  "well_formed_Schema z s =
     (valid_utf8 (Schema_Type s) \<and> valid_utf8 (Schema_Format s)
      \<and> valid_utf8 (Schema_RegistryRef s)
      \<and> readable_pointer (read_ConfigMapKeySelector z) (Schema_ConfigMapKeyRef s))"

definition well_formed_Parameter :: "imported_types \<Rightarrow> Parameter \<Rightarrow> bool" where
  "well_formed_Parameter z p =
     (valid_utf8 (Parameter_Name p) \<and> valid_utf8 (Parameter_Description p)
      \<and> valid_utf8 (Parameter_Required p) \<and> well_formed_Schema z (Parameter_Schema p))"

definition well_formed_ParameterBinding :: "imported_types \<Rightarrow> ParameterBinding \<Rightarrow> bool" where
  "well_formed_ParameterBinding z b =
     (valid_utf8 (ParameterBinding_Name b)
      \<and> readable_pointer (read_ConfigMapKeySelector z) (ParameterBinding_ConfigMapKeyRef b)
      \<and> readable_pointer (read_SecretKeySelector z) (ParameterBinding_SecretKeyRef b))"

definition well_formed_Endpoint_Parameter :: "imported_types \<Rightarrow> Endpoint_Parameter \<Rightarrow> bool" where
  "well_formed_Endpoint_Parameter z p =
     (well_formed_ParameterBinding z (Endpoint_Parameter_ParameterBinding p)
      \<and> valid_utf8 (Endpoint_Parameter_Target p))"

definition well_formed_Endpoint :: "imported_types \<Rightarrow> Endpoint_struct \<Rightarrow> bool" where
  "well_formed_Endpoint z e =
     (valid_utf8 (Endpoint_URL e)
      \<and> (case Endpoint_Parameters e of
            None \<Rightarrow> True
          | Some ps \<Rightarrow> list_all (well_formed_Endpoint_Parameter z) ps))"

definition well_formed_Container_Parameter :: "imported_types \<Rightarrow> Container_Parameter \<Rightarrow> bool" where
  "well_formed_Container_Parameter z p =
     (well_formed_ParameterBinding z (Container_Parameter_ParameterBinding p)
      \<and> readable (read_EnvVar z) (Container_Parameter_Target p))"

definition well_formed_Container :: "imported_types \<Rightarrow> Container_struct \<Rightarrow> bool" where
  "well_formed_Container z c =
     (readable (read_Container z) (Container_Container c)
      \<and> (case Container_Parameters c of
            None \<Rightarrow> True
          | Some ps \<Rightarrow> list_all (well_formed_Container_Parameter z) ps))"

definition well_formed_Dependency_struct :: "Dependency_struct \<Rightarrow> bool" where
  "well_formed_Dependency_struct d = list_all well_formed_Dependency (Dependency_Dependencies d)"

definition well_formed_ImplementationSpec :: "imported_types \<Rightarrow> ImplementationSpec \<Rightarrow> bool" where
  "well_formed_ImplementationSpec z i =
     ((case ImplementationSpec_Endpoint i of None \<Rightarrow> True | Some e \<Rightarrow> well_formed_Endpoint z e)
      \<and> (case ImplementationSpec_Container i of
            None \<Rightarrow> True
          | Some c \<Rightarrow> well_formed_Container z c)
      \<and> (case ImplementationSpec_Dependency i of
            None \<Rightarrow> True
          | Some d \<Rightarrow> well_formed_Dependency_struct d))"

definition well_formed_DataShape :: "imported_types \<Rightarrow> DataShape_struct \<Rightarrow> bool" where
  "well_formed_DataShape z d =
     ((case DataShape_In d of None \<Rightarrow> True | Some s \<Rightarrow> well_formed_Schema z s)
      \<and> (case DataShape_Out d of None \<Rightarrow> True | Some s \<Rightarrow> well_formed_Schema z s)
      \<and> fmpred (\<lambda>k v. valid_utf8 k \<and> valid_utf8 v) (DataShape_Metadata d))"

definition well_formed_ActionSpec :: "imported_types \<Rightarrow> ActionSpec \<Rightarrow> bool" where
  "well_formed_ActionSpec z s =
     (well_formed_DataShape z (ActionSpec_DataShape s)
      \<and> (case ActionSpec_Parameters s of
            None \<Rightarrow> True
          | Some ps \<Rightarrow> fmpred (\<lambda>k p. valid_utf8 k \<and> well_formed_Parameter z p) ps)
      \<and> well_formed_ImplementationSpec z (ActionSpec_ImplementationSpec s)
      \<and> (case ActionSpec_Meta s of
            None \<Rightarrow> True
          | Some m \<Rightarrow> well_formed_ImplementationSpec z m))"

definition well_formed_Action :: "imported_types \<Rightarrow> Action \<Rightarrow> bool" where
  "well_formed_Action z a =
     (valid_utf8 (TypeMeta_Kind (Action_TypeMeta a))
      \<and> valid_utf8 (TypeMeta_APIVersion (Action_TypeMeta a))
      \<and> readable (read_ObjectMeta z) (Action_ObjectMeta a)
      \<and> well_formed_ActionSpec z (Action_Spec a))"

section \<open>Round trips\<close>

text \<open>Serializing the result of deserializing a document.\<close>

definition roundtrip :: "imported_types \<Rightarrow> json \<Rightarrow> json option" where
  "roundtrip z D = map_option marshal_Action (unmarshal_Action z D)"

text \<open>
  The form of every document that serialization writes for an Action: the members
  \<open>metadata\<close>, \<open>spec\<close> and \<open>status\<close> are there, and in \<open>spec\<close> the members \<open>DataShape\<close>,
  \<open>Parameters\<close>, \<open>Endpoint\<close>, \<open>Container\<close> and \<open>Dependency\<close>; \<open>kind\<close> and \<open>apiVersion\<close>
  are not the empty string; and every member of \<open>Parameters\<close> has the member \<open>schema\<close>
  and no empty string under \<open>name\<close>, \<open>description\<close> or \<open>required\<close>.
\<close>

definition parameters_of :: "json \<Rightarrow> json" where
  "parameters_of D = lookup_member (lookup_member D ''spec'') ''Parameters''"

definition written_form :: "json \<Rightarrow> bool" where
  "written_form D =
     (''metadata'' |\<in>| member_keys D \<and> ''spec'' |\<in>| member_keys D
      \<and> ''status'' |\<in>| member_keys D
      \<and> ''DataShape'' |\<in>| member_keys (lookup_member D ''spec'')
      \<and> ''Parameters'' |\<in>| member_keys (lookup_member D ''spec'')
      \<and> ''Endpoint'' |\<in>| member_keys (lookup_member D ''spec'')
      \<and> ''Container'' |\<in>| member_keys (lookup_member D ''spec'')
      \<and> ''Dependency'' |\<in>| member_keys (lookup_member D ''spec'')
      \<and> lookup_member D ''kind'' \<noteq> JString []
      \<and> lookup_member D ''apiVersion'' \<noteq> JString []
      \<and> fBall (member_keys (parameters_of D))
           (\<lambda>n. ''schema'' |\<in>| member_keys (lookup_member (parameters_of D) n)
              \<and> lookup_member (lookup_member (parameters_of D) n) ''name'' \<noteq> JString []
              \<and> lookup_member (lookup_member (parameters_of D) n) ''description'' \<noteq> JString []
              \<and> lookup_member (lookup_member (parameters_of D) n) ''required'' \<noteq> JString []))"

text \<open>
  An instance of the imported types, for the examples. The zero \<open>Container\<close> is written
  with the members \<open>name\<close> and \<open>resources\<close>, the zero \<open>EnvVar\<close> with \<open>name\<close>, the zero
  \<open>ObjectMeta\<close> with \<open>creationTimestamp\<close> (other versions of its package write none),
  and a reader gives the members it is handed, over those of the zero value. The
  statements about every value or every document below are about every instance.
\<close>

definition overlay :: "imported \<Rightarrow> (string, json) fmap \<Rightarrow> imported option" where
  "overlay zero m = (case zero of Imported zm \<Rightarrow> Some (Imported (zm ++\<^sub>f m)))"

definition example_imports :: imported_types where
  "example_imports =
     \<lparr>zero_ObjectMeta = Imported (fmap_of_list [(''creationTimestamp'', JNull)]),
      zero_Container =
        Imported (fmap_of_list [(''name'', JString []), (''resources'', object [])]),
      zero_EnvVar = Imported (fmap_of_list [(''name'', JString [])]),
      read_ObjectMeta = overlay (Imported (fmap_of_list [(''creationTimestamp'', JNull)])),
      read_Container =
        overlay (Imported (fmap_of_list [(''name'', JString []), (''resources'', object [])])),
      read_EnvVar = overlay (Imported (fmap_of_list [(''name'', JString [])])),
      read_ConfigMapKeySelector = overlay (Imported (fmap_of_list [(''key'', JString [])])),
      read_SecretKeySelector = overlay (Imported (fmap_of_list [(''key'', JString [])]))\<rparr>"

text \<open>
  The document of an Action \<open>search\<close>: one declared parameter \<open>q\<close>, whose description
  is the empty string, and the endpoint variant with one binding of \<open>q\<close> to the query.
\<close>

definition search_document :: json where
  "search_document = object
     [(''kind'', JString ''Action''),
      (''metadata'', object [(''name'', JString ''search'')]),
      (''spec'', object
        [(''Parameters'', object
           [(''q'', object
              [(''description'', JString []),
               (''schema'', object [(''type'', JString ''string'')])])]),
         (''Endpoint'', object
           [(''url'', JString ''http://search/find?q={{q}}''),
            (''Parameters'', JArray
              [object [(''name'', JString ''q''), (''target'', JString ''query'')]])])])]"

text \<open>The Action it is deserialized into, and what serialization writes for that Action.\<close>

definition search_action :: Action where
  "search_action =
     \<lparr>Action_TypeMeta = \<lparr>TypeMeta_Kind = ''Action'', TypeMeta_APIVersion = []\<rparr>,
      Action_ObjectMeta =
        Imported (fmap_of_list [(''name'', JString ''search''), (''creationTimestamp'', JNull)]),
      Action_Spec =
        \<lparr>ActionSpec_DataShape = zero_DataShape,
         ActionSpec_Parameters =
           Some (fmap_of_list
             [(''q'', zero_Parameter\<lparr>Parameter_Schema := zero_Schema\<lparr>Schema_Type := ''string''\<rparr>\<rparr>)]),
         ActionSpec_ImplementationSpec =
           \<lparr>ImplementationSpec_Endpoint =
              Some \<lparr>Endpoint_URL = ''http://search/find?q={{q}}'',
                    Endpoint_Parameters =
                      Some [\<lparr>Endpoint_Parameter_ParameterBinding =
                                zero_ParameterBinding\<lparr>ParameterBinding_Name := ''q''\<rparr>,
                              Endpoint_Parameter_Target = ''query''\<rparr>]\<rparr>,
            ImplementationSpec_Container = None,
            ImplementationSpec_Dependency = None\<rparr>,
         ActionSpec_Meta = None\<rparr>,
      Action_Status = ActionStatus\<rparr>"

definition search_rewritten :: json where
  "search_rewritten = object
     [(''kind'', JString ''Action''),
      (''metadata'', object [(''name'', JString ''search''), (''creationTimestamp'', JNull)]),
      (''spec'', object
        [(''DataShape'', object []),
         (''Parameters'', object
           [(''q'', object
              [(''schema'', object [(''type'', JString ''string'')])])]),
         (''Endpoint'', object
           [(''url'', JString ''http://search/find?q={{q}}''),
            (''Parameters'', JArray
              [object [(''name'', JString ''q''), (''target'', JString ''query'')]])]),
         (''Container'', JNull),
         (''Dependency'', JNull)]),
      (''status'', object [])]"

section \<open>The variants of a binding, as values\<close>

text \<open>The variants of a binding that are populated: the pointers that are not nil.\<close>

definition populated_variants :: "ImplementationSpec \<Rightarrow> string list" where
  "populated_variants i =
     (case ImplementationSpec_Endpoint i of None \<Rightarrow> [] | Some e \<Rightarrow> [''Endpoint''])
     @ (case ImplementationSpec_Container i of None \<Rightarrow> [] | Some c \<Rightarrow> [''Container''])
     @ (case ImplementationSpec_Dependency i of None \<Rightarrow> [] | Some d \<Rightarrow> [''Dependency''])"

text \<open>
  The binding that the comment on \<open>URL\<close> in \<open>action_types.go\<close> (lines 71 to 83) gives
  as the way to run a container as a sidecar: an endpoint whose URL has the scheme
  \<open>container\<close> and names the container, and that container, in one
  \<open>ImplementationSpec\<close>. Its document, and the value the document is read as.
\<close>

definition sidecar_document :: json where
  "sidecar_document = object
     [(''Endpoint'', object
        [(''url'', JString ''container://my-container/search?q={{parameter-name}}'')]),
      (''Container'', object
        [(''container'', object
           [(''name'', JString ''my-container''), (''image'', JString ''my-imag'')])])]"

definition sidecar_binding :: ImplementationSpec where
  "sidecar_binding =
     \<lparr>ImplementationSpec_Endpoint =
        Some \<lparr>Endpoint_URL = ''container://my-container/search?q={{parameter-name}}'',
              Endpoint_Parameters = None\<rparr>,
      ImplementationSpec_Container =
        Some \<lparr>Container_Container =
                Imported (fmap_of_list
                  [(''name'', JString ''my-container''), (''image'', JString ''my-imag''),
                   (''resources'', object [])]),
              Container_Parameters = None\<rparr>,
      ImplementationSpec_Dependency = None\<rparr>"

text \<open>
  A document of a binding with a chosen set of the three members, each an object without
  members, and the binding with just these variants populated, each with its zero value.
\<close>

definition binding_document :: "bool \<Rightarrow> bool \<Rightarrow> bool \<Rightarrow> json" where
  "binding_document e c d = object
     ((if e then [(''Endpoint'', object [])] else [])
      @ (if c then [(''Container'', object [])] else [])
      @ (if d then [(''Dependency'', object [])] else []))"

definition binding_value :: "imported_types \<Rightarrow> bool \<Rightarrow> bool \<Rightarrow> bool \<Rightarrow> ImplementationSpec" where
  "binding_value z e c d =
     \<lparr>ImplementationSpec_Endpoint = (if e then Some zero_Endpoint else None),
      ImplementationSpec_Container = (if c then Some (zero_Container_struct z) else None),
      ImplementationSpec_Dependency = (if d then Some zero_Dependency_struct else None)\<rparr>"

section \<open>Validation\<close>

text \<open>
  The repository declares types only; it has no function that validates an Action. The
  spec describes one (its sections 4.1, 7 and 8). The definitions of this section follow
  the words of the spec, over the structs of \<open>action_types.go\<close>, where the binding is the
  embedded \<open>ImplementationSpec\<close> (its variants are members of \<open>spec\<close> itself) and \<open>meta\<close>
  is the optional second one.
\<close>

datatype step = Key string | Index nat

type_synonym field_path = "step list"

text \<open>
  Modelled from the spec: the taxonomy of validation errors (section 7), each naming the
  field path it is about (section 4.1); the repository has no error type. The error for
  an unknown parameter also holds the name that is not declared, as in the spec's scenario
  \<open>UnknownParameterReference("missing")\<close>.
\<close>

datatype validation_error =
    MissingBinding field_path
  | AmbiguousBinding field_path
  | UnknownParameterReference field_path string
  | AmbiguousSchemaSource field_path
  | MalformedDocument

definition binding_path :: field_path where
  "binding_path = [Key ''spec'']"

definition meta_path :: field_path where
  "meta_path = [Key ''spec'', Key ''meta'']"

text \<open>The binding of an Action: the \<open>ImplementationSpec\<close> embedded in its spec.\<close>

definition binding_of :: "Action \<Rightarrow> ImplementationSpec" where
  "binding_of a = ActionSpec_ImplementationSpec (Action_Spec a)"

text \<open>
  Modelled from the spec: rule 2 of section 4.1, which the repository does not implement.
  No populated variant is \<open>MissingBinding\<close>, more than one is \<open>AmbiguousBinding\<close>.
\<close>

definition check_variants :: "field_path \<Rightarrow> ImplementationSpec \<Rightarrow> validation_error list" where
  "check_variants p i =
     (case populated_variants i of
        [] \<Rightarrow> [MissingBinding p]
      | [v] \<Rightarrow> []
      | v # w # vs \<Rightarrow> [AmbiguousBinding p])"

text \<open>
  The parameter bindings inside the populated variants of a binding, each with its path
  below the binding. The dependency variant declares none.
\<close>

definition parameter_bindings :: "ImplementationSpec \<Rightarrow> (field_path \<times> ParameterBinding) list" where
  "parameter_bindings i =
     (case ImplementationSpec_Endpoint i of
        None \<Rightarrow> []
      | Some e \<Rightarrow>
          (case Endpoint_Parameters e of
             None \<Rightarrow> []
           | Some ps \<Rightarrow>
               map (\<lambda>(k, p). ([Key ''Endpoint'', Key ''Parameters'', Index k],
                      Endpoint_Parameter_ParameterBinding p))
                 (enumerate 0 ps)))
     @ (case ImplementationSpec_Container i of
          None \<Rightarrow> []
        | Some c \<Rightarrow>
            (case Container_Parameters c of
               None \<Rightarrow> []
             | Some ps \<Rightarrow>
                 map (\<lambda>(k, p). ([Key ''Container'', Key ''Parameters'', Index k],
                        Container_Parameter_ParameterBinding p))
                   (enumerate 0 ps)))"

text \<open>The keys of the \<open>Parameters\<close> mapping of an Action; a nil map has none.\<close>

definition declared_parameters :: "ActionSpec \<Rightarrow> string fset" where
  "declared_parameters s =
     (case ActionSpec_Parameters s of None \<Rightarrow> {||} | Some m \<Rightarrow> fmdom m)"

text \<open>
  Modelled from the spec: rule 3 of section 4.1, which the repository does not implement.
  A binding whose name is not a key of \<open>Parameters\<close> is \<open>UnknownParameterReference\<close>, at
  the path of that binding.
\<close>

definition check_references ::
    "string fset \<Rightarrow> field_path \<Rightarrow> ImplementationSpec \<Rightarrow> validation_error list" where
  "check_references declared p i =
     map (\<lambda>(q, b). UnknownParameterReference (p @ q) (ParameterBinding_Name b))
       (filter (\<lambda>(q, b). ParameterBinding_Name b |\<notin>| declared) (parameter_bindings i))"

definition check_binding ::
    "string fset \<Rightarrow> field_path \<Rightarrow> ImplementationSpec \<Rightarrow> validation_error list" where
  "check_binding declared p i = check_variants p i @ check_references declared p i"

text \<open>
  Modelled from the spec: rule 4 of section 4.1, which the repository does not check, as
  far as the spec names an error for it. The data sources of a schema are the inline one,
  set when \<open>Type\<close> or \<open>Format\<close> is not empty, \<open>registryRef\<close> and \<open>configMapKeyRef\<close>;
  more than one of them set is \<open>AmbiguousSchemaSource\<close>. The rule also forbids a schema
  with no source whose \<open>Type\<close> is not a recognized primitive; the spec names no error
  for it, and none is reported here.
\<close>

definition schema_sources :: "Schema \<Rightarrow> string list" where
  "schema_sources s =
     (if Schema_Type s \<noteq> [] \<or> Schema_Format s \<noteq> [] then [''inline''] else [])
     @ (if Schema_RegistryRef s \<noteq> [] then [''registryRef''] else [])
     @ (case Schema_ConfigMapKeyRef s of None \<Rightarrow> [] | Some r \<Rightarrow> [''configMapKeyRef''])"

definition check_schema :: "field_path \<Rightarrow> Schema \<Rightarrow> validation_error list" where
  "check_schema p s =
     (if 2 \<le> length (schema_sources s) then [AmbiguousSchemaSource p] else [])"

text \<open>The schemas of an Action: those of the data shape, and one per declared parameter,
  in the order of the parameter names.\<close>

definition schemas_of :: "ActionSpec \<Rightarrow> (field_path \<times> Schema) list" where
  "schemas_of s =
     (case DataShape_In (ActionSpec_DataShape s) of
        None \<Rightarrow> []
      | Some i \<Rightarrow> [([Key ''spec'', Key ''DataShape'', Key ''in''], i)])
     @ (case DataShape_Out (ActionSpec_DataShape s) of
          None \<Rightarrow> []
        | Some out \<Rightarrow> [([Key ''spec'', Key ''DataShape'', Key ''out''], out)])
     @ (case ActionSpec_Parameters s of
          None \<Rightarrow> []
        | Some m \<Rightarrow>
            map (\<lambda>(n, p). ([Key ''spec'', Key ''Parameters'', Key n, Key ''schema''],
                   Parameter_Schema p))
              (sorted_list_of_fmap m))"

text \<open>
  Modelled from the spec: the validation of an Action (section 4.1, rules 2 to 5) with the
  propagation policy of section 7, which the repository does not implement. Rule 5: \<open>meta\<close>
  may be absent, and follows the rules of the binding when present. Every error of every
  rule is in the list. The Action is returned only when the list is empty.
\<close>

definition errors :: "Action \<Rightarrow> validation_error list" where
  "errors a =
     check_binding (declared_parameters (Action_Spec a)) binding_path (binding_of a)
     @ (case ActionSpec_Meta (Action_Spec a) of
          None \<Rightarrow> []
        | Some m \<Rightarrow> check_binding (declared_parameters (Action_Spec a)) meta_path m)
     @ concat (map (\<lambda>(p, s). check_schema p s) (schemas_of (Action_Spec a)))"

definition validate :: "Action \<Rightarrow> validation_error list + Action" where
  "validate a = (if errors a = [] then Inr a else Inl (errors a))"

text \<open>
  Modelled from the spec: \<open>MalformedDocument\<close> (section 7) for an input that cannot be
  parsed into the shape, here a document that deserialization refuses.
\<close>

definition validate_document :: "imported_types \<Rightarrow> json \<Rightarrow> validation_error list + Action" where
  "validate_document z D =
     (case unmarshal_Action z D of None \<Rightarrow> Inl [MalformedDocument] | Some a \<Rightarrow> validate a)"

text \<open>
  The scenarios of section 8 of the spec: the Action \<open>build-image\<close> with one declared
  parameter \<open>repo\<close> and the container variant with one binding of \<open>repo\<close> to the
  environment variable \<open>REPO_URL\<close>; the same with the dependency variant populated as
  well; and the same with a binding of the undeclared name \<open>missing\<close>.
\<close>

definition build_image_document :: json where
  "build_image_document = object
     [(''kind'', JString ''Action''),
      (''metadata'', object [(''name'', JString ''build-image'')]),
      (''spec'', object
        [(''Parameters'', object
           [(''repo'', object
              [(''schema'', object [(''type'', JString ''string'')])])]),
         (''Container'', object
           [(''container'', object
              [(''name'', JString ''builder''), (''image'', JString ''builder:1'')]),
            (''Parameters'', JArray
              [object
                 [(''name'', JString ''repo''),
                  (''target'', object [(''name'', JString ''REPO_URL'')])]])])])]"


definition build_image_two_variants :: json where
  "build_image_two_variants = object
     [(''kind'', JString ''Action''),
      (''metadata'', object [(''name'', JString ''build-image'')]),
      (''spec'', object
        [(''Parameters'', object
           [(''repo'', object [(''schema'', object [(''type'', JString ''string'')])])]),
         (''Container'', object
           [(''container'', object
              [(''name'', JString ''builder''), (''image'', JString ''builder:1'')]),
            (''Parameters'', JArray
              [object
                 [(''name'', JString ''repo''),
                  (''target'', object [(''name'', JString ''REPO_URL'')])]])]),
         (''Dependency'', object
           [(''dependencies'', JArray
              [object [(''type'', JString ''library''), (''id'', JString ''git'')]])])])]"

definition build_image_missing_parameter :: json where
  "build_image_missing_parameter = object
     [(''kind'', JString ''Action''),
      (''metadata'', object [(''name'', JString ''build-image'')]),
      (''spec'', object
        [(''Parameters'', object
           [(''repo'', object [(''schema'', object [(''type'', JString ''string'')])])]),
         (''Container'', object
           [(''container'', object
              [(''name'', JString ''builder''), (''image'', JString ''builder:1'')]),
            (''Parameters'', JArray
              [object
                 [(''name'', JString ''missing''),
                  (''target'', object [(''name'', JString ''REPO_URL'')])]])])])]"

text \<open>The Action of the second scenario, as a value.\<close>

definition missing_parameter_container :: Container_struct where
  "missing_parameter_container =
     \<lparr>Container_Container = Imported (fmap_of_list [(''name'', JString ''builder'')]),
      Container_Parameters =
        Some [\<lparr>Container_Parameter_ParameterBinding =
                  zero_ParameterBinding\<lparr>ParameterBinding_Name := ''missing''\<rparr>,
                Container_Parameter_Target = Imported fmempty\<rparr>]\<rparr>"

definition missing_parameter_action :: Action where
  "missing_parameter_action =
     (zero_Action example_imports)
       \<lparr>Action_Spec := zero_ActionSpec
          \<lparr>ActionSpec_Parameters := Some (fmap_of_list [(''repo'', zero_Parameter)]),
           ActionSpec_ImplementationSpec := zero_ImplementationSpec
             \<lparr>ImplementationSpec_Container := Some missing_parameter_container\<rparr>\<rparr>\<rparr>"

section \<open>Properties of the declarations\<close>

lemma Metadata_no_value_aux:
  "has_type file t v \<Longrightarrow> file = action_binding_go \<Longrightarrow> t \<noteq> TNamed ''Metadata''"
  by (induction rule: has_type.induct) (auto simp: action_binding_go_def)

lemma Metadata_no_value: "\<not> has_type action_binding_go (TNamed ''Metadata'') v"
  using Metadata_no_value_aux by blast

lemma struct_with_Metadata_no_value:
  assumes "i < length fs" and "field_type (fs ! i) = TNamed ''Metadata''"
  shows "\<not> has_type action_binding_go (TStruct fs) v"
proof
  assume "has_type action_binding_go (TStruct fs) v"
  then obtain vs where "length fs = length vs"
    and "\<forall>i < length vs. has_type action_binding_go (field_type (fs ! i)) (vs ! i)"
    by (rule has_type_struct)
  with assms have "has_type action_binding_go (TNamed ''Metadata'') (vs ! i)"
    by auto
  then show False
    by (simp add: Metadata_no_value)
qed

lemma has_type_struct_Nil: "has_type pkg (TStruct []) (VStruct [])"
  by (rule T_struct) simp_all

lemma has_type_struct_Cons:
  assumes "has_type pkg (field_type f) v" and "has_type pkg (TStruct fs) (VStruct vs)"
  shows "has_type pkg (TStruct (f # fs)) (VStruct (v # vs))"
proof -
  from assms(2) have len: "length fs = length vs"
    and rest: "\<forall>i < length vs. has_type pkg (field_type (fs ! i)) (vs ! i)"
    by (auto elim: has_type_struct)
  have "has_type pkg (field_type ((f # fs) ! i)) ((v # vs) ! i)" if "i < length (f # fs)" for i
    using that assms(1) rest len by (cases i) auto
  then show ?thesis
    using len by (intro T_struct) auto
qed

lemma has_type_empty_slice: "has_type pkg (TSlice t) (VSlice [])"
  by (rule T_slice) simp

subsection \<open>The duplicate \<open>Parameter\<close> and the self-referential \<open>Metadata\<close>\<close>

lemma Metadata_no_underlying: "underlying action_binding_go k (TNamed ''Metadata'') = None"
  by (induction k) (simp_all add: action_binding_go_def)

lemma named_struct_with_Metadata_no_value:
  assumes "type_at action_binding_go n [] = Some (TStruct fs)"
    and "i < length fs" and "field_type (fs ! i) = TNamed ''Metadata''"
  shows "\<not> has_type action_binding_go (TNamed n) v"
proof
  assume "has_type action_binding_go (TNamed n) v"
  then obtain t where "map_of action_binding_go n = Some t"
    and "has_type action_binding_go t v"
    by (auto elim: has_type.cases)
  with assms(1) have "has_type action_binding_go (TStruct fs) v"
    by (simp add: type_at_def)
  with assms(2,3) show False
    using struct_with_Metadata_no_value by blast
qed

lemma Message_no_value: "\<not> has_type action_binding_go (TNamed ''Message'') v"
proof -
  have "\<exists>fs. type_at action_binding_go ''Message'' [] = Some (TStruct fs)
          \<and> 2 < length fs \<and> field_type (fs ! 2) = TNamed ''Metadata''"
    by (simp add: type_at_def action_binding_go_def)
  then show ?thesis
    using named_struct_with_Metadata_no_value by blast
qed

lemma Schema_no_value: "\<not> has_type action_binding_go (TNamed ''Schema'') v"
proof -
  have "\<exists>fs. type_at action_binding_go ''Schema'' [] = Some (TStruct fs)
          \<and> 4 < length fs \<and> field_type (fs ! 4) = TNamed ''Metadata''"
    by (simp add: type_at_def action_binding_go_def)
  then show ?thesis
    using named_struct_with_Metadata_no_value by blast
qed

text \<open>
  Claim C9. \<open>action_types.go\<close> declares the struct \<open>Parameter\<close> twice, with the same
  fields. The latest revision declares \<open>type Metadata Metadata\<close>: the declaration of
  \<open>Metadata\<close> is the name \<open>Metadata\<close> itself, so chasing its underlying type never reaches
  a representation, however many steps are taken. The fields named \<open>Metadata\<close> of
  \<open>Message\<close>, of \<open>Schema\<close> and of the container and dependency variants of
  \<open>BindingSpec\<close> have this type; no value has it, and so none of these structs has a value.
\<close>

theorem C9_duplicate_Parameter_and_Metadata_without_values:
  "declarations_of action_types_go ''Parameter'' = [Parameter_decl, Parameter_decl]
   \<and> declarations_of action_binding_go ''Metadata'' = [TNamed ''Metadata'']
   \<and> (\<forall>k. underlying action_binding_go k (TNamed ''Metadata'') = None)
   \<and> type_at action_binding_go ''Message'' [''Metadata''] = Some (TNamed ''Metadata'')
   \<and> type_at action_binding_go ''Schema'' [''Metadata''] = Some (TNamed ''Metadata'')
   \<and> type_at action_binding_go ''BindingSpec'' [''HTTP'', ''Container'', ''Metadata'']
       = Some (TNamed ''Metadata'')
   \<and> type_at action_binding_go ''BindingSpec'' [''Dependency'', ''Metadata'']
       = Some (TNamed ''Metadata'')
   \<and> (\<forall>v. \<not> has_type action_binding_go (TNamed ''Metadata'') v)
   \<and> (\<forall>v. \<not> has_type action_binding_go (TNamed ''Message'') v)
   \<and> (\<forall>v. \<not> has_type action_binding_go (TNamed ''Schema'') v)"
proof -
  have "declarations_of action_types_go ''Parameter'' = [Parameter_decl, Parameter_decl]"
    by (simp add: declarations_of_def action_types_go_def)
  moreover have "declarations_of action_binding_go ''Metadata'' = [TNamed ''Metadata'']"
    by (simp add: declarations_of_def action_binding_go_def)
  moreover have
    "type_at action_binding_go ''Message'' [''Metadata''] = Some (TNamed ''Metadata'')"
    "type_at action_binding_go ''Schema'' [''Metadata''] = Some (TNamed ''Metadata'')"
    "type_at action_binding_go ''BindingSpec'' [''HTTP'', ''Container'', ''Metadata'']
       = Some (TNamed ''Metadata'')"
    "type_at action_binding_go ''BindingSpec'' [''Dependency'', ''Metadata'']
       = Some (TNamed ''Metadata'')"
    by (simp_all add: type_at_def field_at_def field_named_def action_binding_go_def)
  ultimately show ?thesis
    using Metadata_no_underlying Metadata_no_value Message_no_value Schema_no_value
    by blast
qed

theorem C9_witness:
  "underlying action_binding_go 7 (TNamed ''Metadata'') = None
   \<and> \<not> has_type action_binding_go (TNamed ''Metadata'') (VMap [(VString ''team'', VString ''a'')])
   \<and> \<not> has_type action_binding_go (TNamed ''Schema'')
         (VStruct [VString ''string'', VString [], VString [], VNil, VMap []])"
  using C9_duplicate_Parameter_and_Metadata_without_values by blast

subsection \<open>The variants of a binding\<close>

text \<open>
  Claim C6, as the spec states it: the binding has exactly three variants, Endpoint,
  Container and Dependency, each selectable at the top level of the binding. The revision
  that has the \<open>binding\<close> member types it \<open>BindingSpec\<close>, whose top level holds two fields,
  \<open>HTTP\<close> and \<open>Dependency\<close>; \<open>Container\<close> is a field of the struct \<open>HTTP\<close> points to, so
  it is not a field of the binding and can be reached through \<open>HTTP\<close> only.
\<close>

theorem C6_BindingSpec_has_two_top_level_variants:
  "members_at action_binding_go ''BindingSpec'' [] = [''HTTP'', ''Dependency'']
   \<and> field_at action_binding_go ''BindingSpec'' [''Container''] = None
   \<and> members_at action_binding_go ''BindingSpec'' [''HTTP'']
       = [''URL'', ''Parameters'', ''Container'']"
  by (simp add: members_at_def type_at_def field_at_def field_named_def action_binding_go_def)

text \<open>
  Claim C6, amended. In \<open>action_types.go\<close> the binding is \<open>ImplementationSpec\<close>, a struct of
  three pointer fields \<open>Endpoint\<close>, \<open>Container\<close> and \<open>Dependency\<close>. \<open>Endpoint\<close> carries a
  URL string and a list of parameter bindings, each with a target string; \<open>Container\<close>
  carries the embedded \<open>corev1.Container\<close> and a list of parameter bindings, each with a
  target \<open>corev1.EnvVar\<close>; \<open>Dependency\<close> carries a list of \<open>Dependency\<close>, a struct of \<open>Type\<close>
  and \<open>ID\<close>. Every one of the eight ways of populating the three fields is the shape of a
  value of the type. In the latest revision the binding is \<open>BindingSpec\<close>, with \<open>HTTP\<close> and
  \<open>Dependency\<close> at the top level and \<open>Container\<close> inside \<open>HTTP\<close>, and the container and
  the dependency variant carry a \<open>Metadata\<close> field as well.
\<close>

theorem C6_binding_variants:
  "members_at action_types_go ''ImplementationSpec'' [] = [''Endpoint'', ''Container'', ''Dependency'']
   \<and> members_at action_types_go ''ImplementationSpec'' [''Endpoint''] = [''URL'', ''Parameters'']
   \<and> type_at action_types_go ''ImplementationSpec'' [''Endpoint'', ''URL''] = Some TString
   \<and> members_at action_types_go ''ImplementationSpec'' [''Endpoint'', ''Parameters'']
       = [''ParameterBinding'', ''Target'']
   \<and> type_at action_types_go ''ImplementationSpec'' [''Endpoint'', ''Parameters'', ''Target'']
       = Some TString
   \<and> members_at action_types_go ''ImplementationSpec'' [''Container'']
       = [''Container'', ''Parameters'']
   \<and> type_at action_types_go ''ImplementationSpec'' [''Container'', ''Container'']
       = Some (TImported ''corev1'' ''Container'')
   \<and> members_at action_types_go ''ImplementationSpec'' [''Container'', ''Parameters'']
       = [''ParameterBinding'', ''Target'']
   \<and> type_at action_types_go ''ImplementationSpec'' [''Container'', ''Parameters'', ''Target'']
       = Some (TImported ''corev1'' ''EnvVar'')
   \<and> members_at action_types_go ''ImplementationSpec'' [''Dependency''] = [''Dependencies'']
   \<and> type_at action_types_go ''ImplementationSpec'' [''Dependency'', ''Dependencies'']
       = Some (TSlice (TNamed ''Dependency''))
   \<and> members_at action_types_go ''Dependency'' [] = [''Type'', ''ID'']
   \<and> (\<forall>e c d. \<exists>v. has_type action_types_go (TNamed ''ImplementationSpec'') v
          \<and> populated v = [e, c, d])
   \<and> members_at action_binding_go ''BindingSpec'' [] = [''HTTP'', ''Dependency'']
   \<and> members_at action_binding_go ''BindingSpec'' [''HTTP'']
       = [''URL'', ''Parameters'', ''Container'']
   \<and> members_at action_binding_go ''BindingSpec'' [''HTTP'', ''Container'']
       = [''Container'', ''Parameters'', ''Metadata'']
   \<and> members_at action_binding_go ''BindingSpec'' [''Dependency'']
       = [''Dependencies'', ''Metadata'']"
proof -
  have shape:
    "members_at action_types_go ''ImplementationSpec'' [] = [''Endpoint'', ''Container'', ''Dependency'']"
    "members_at action_types_go ''ImplementationSpec'' [''Endpoint''] = [''URL'', ''Parameters'']"
    "type_at action_types_go ''ImplementationSpec'' [''Endpoint'', ''URL''] = Some TString"
    "members_at action_types_go ''ImplementationSpec'' [''Endpoint'', ''Parameters'']
       = [''ParameterBinding'', ''Target'']"
    "type_at action_types_go ''ImplementationSpec'' [''Endpoint'', ''Parameters'', ''Target'']
       = Some TString"
    "members_at action_types_go ''ImplementationSpec'' [''Container'']
       = [''Container'', ''Parameters'']"
    "type_at action_types_go ''ImplementationSpec'' [''Container'', ''Container'']
       = Some (TImported ''corev1'' ''Container'')"
    "members_at action_types_go ''ImplementationSpec'' [''Container'', ''Parameters'']
       = [''ParameterBinding'', ''Target'']"
    "type_at action_types_go ''ImplementationSpec'' [''Container'', ''Parameters'', ''Target'']
       = Some (TImported ''corev1'' ''EnvVar'')"
    "members_at action_types_go ''ImplementationSpec'' [''Dependency''] = [''Dependencies'']"
    "type_at action_types_go ''ImplementationSpec'' [''Dependency'', ''Dependencies'']
       = Some (TSlice (TNamed ''Dependency''))"
    "members_at action_types_go ''Dependency'' [] = [''Type'', ''ID'']"
    by (simp_all add: members_at_def type_at_def field_at_def field_named_def
        action_types_go_def EndpointParameters_decl_def ContainerParameters_decl_def
        Dependency_decl_def)
  have latest:
    "members_at action_binding_go ''BindingSpec'' [] = [''HTTP'', ''Dependency'']"
    "members_at action_binding_go ''BindingSpec'' [''HTTP'']
       = [''URL'', ''Parameters'', ''Container'']"
    "members_at action_binding_go ''BindingSpec'' [''HTTP'', ''Container'']
       = [''Container'', ''Parameters'', ''Metadata'']"
    "members_at action_binding_go ''BindingSpec'' [''Dependency'']
       = [''Dependencies'', ''Metadata'']"
    by (simp_all add: members_at_def type_at_def field_at_def field_named_def
        action_binding_go_def)
  have free: "\<exists>v. has_type action_types_go (TNamed ''ImplementationSpec'') v
      \<and> populated v = [e, c, d]" for e c d
  proof -
    define ve where "ve = (if e then VRef (VStruct [VString [], VSlice []]) else VNil)"
    define vc where "vc = (if c then VRef (VStruct [VOpaque, VSlice []]) else VNil)"
    define vd where "vd = (if d then VRef (VStruct [VSlice []]) else VNil)"
    define te where "te = TPointer (TStruct
           [Field ''URL'' TString ''url,omitempty'',
            Field ''Parameters'' EndpointParameters_decl []])"
    define tc where "tc = TPointer (TStruct
           [Embedded (TImported ''corev1'' ''Container'') ''container'',
            Field ''Parameters'' ContainerParameters_decl []])"
    define td where "td = TPointer (TStruct
           [Field ''Dependencies'' (TSlice (TNamed ''Dependency''))
              ''dependencies,omitempty''])"
    have e: "has_type action_types_go te ve"
      unfolding ve_def te_def EndpointParameters_decl_def
      by (auto intro!: T_nil T_ref has_type_struct_Cons has_type_struct_Nil
          has_type_empty_slice T_string)
    have c: "has_type action_types_go tc vc"
      unfolding vc_def tc_def ContainerParameters_decl_def
      by (auto intro!: T_nil T_ref has_type_struct_Cons has_type_struct_Nil
          has_type_empty_slice T_imported)
    have d: "has_type action_types_go td vd"
      unfolding vd_def td_def
      by (auto intro!: T_nil T_ref has_type_struct_Cons has_type_struct_Nil
          has_type_empty_slice)
    have "map_of action_types_go ''ImplementationSpec''
        = Some (TStruct [Field ''Endpoint'' te [], Field ''Container'' tc [],
            Field ''Dependency'' td []])"
      by (simp add: action_types_go_def te_def tc_def td_def)
    moreover have "has_type action_types_go
        (TStruct [Field ''Endpoint'' te [], Field ''Container'' tc [],
            Field ''Dependency'' td []]) (VStruct [ve, vc, vd])"
      by (auto intro!: has_type_struct_Cons has_type_struct_Nil e c d)
    ultimately have "has_type action_types_go (TNamed ''ImplementationSpec'')
        (VStruct [ve, vc, vd])"
      by (rule T_named)
    moreover have "populated (VStruct [ve, vc, vd]) = [e, c, d]"
      by (simp add: ve_def vc_def vd_def)
    ultimately show ?thesis
      by blast
  qed
  from shape latest free show ?thesis
    by blast
qed

theorem C6_witness:
  "\<exists>v. has_type action_types_go (TNamed ''ImplementationSpec'') v
     \<and> populated v = [True, False, True]"
  using C6_binding_variants by blast

subsection \<open>The keys of the wire representation\<close>

lemma member_keys_ActionSpec:
  "member_keys (marshal_ActionSpec s) =
     {|''DataShape'', ''Parameters'', ''Endpoint'', ''Container'', ''Dependency''|}
     |\<union>| (case ActionSpec_Meta s of None \<Rightarrow> {||} | Some m \<Rightarrow> {|''meta''|})"
  by (auto simp: marshal_ActionSpec_def object_def members_ImplementationSpec_def
      pointer_omitempty_def split: option.splits)

lemma member_keys_Action:
  "member_keys (marshal_Action a) =
     {|''metadata'', ''spec'', ''status''|}
     |\<union>| (if TypeMeta_Kind (Action_TypeMeta a) = [] then {||} else {|''kind''|})
     |\<union>| (if TypeMeta_APIVersion (Action_TypeMeta a) = [] then {||} else {|''apiVersion''|})"
  by (auto simp: marshal_Action_def object_def string_omitempty_def)

lemma wire_keys_of_Parameters:
  "wire_key action_binding_go ''ActionSpec'' [''Parameters''] = Some ''Parameters''
   \<and> wire_key action_types_go ''ActionSpec'' [''Parameters''] = Some ''Parameters''
   \<and> wire_key action_go ''ActionSpec'' [''Parameters''] = Some ''Parameters''
   \<and> ''parameters'' \<notin> set (all_keys action_binding_go)
   \<and> ''parameters'' \<notin> set (all_keys action_types_go)
   \<and> ''parameters'' \<notin> set (all_keys action_go)"
  by code_simp

text \<open>
  Claim C7, as the spec states it: the field \<open>Parameters\<close> is written under the key
  \<open>parameters\<close>. The field has no struct tag in any revision, so it is written under its
  Go name, \<open>Parameters\<close>, and no field of any revision has the key \<open>parameters\<close>. The
  spec object written for the zero \<open>ActionSpec\<close> has the member \<open>Parameters\<close> and no
  member \<open>parameters\<close>.
\<close>

theorem C7_Parameters_is_not_written_as_parameters:
  "wire_key action_binding_go ''ActionSpec'' [''Parameters''] = Some ''Parameters''
   \<and> wire_key action_types_go ''ActionSpec'' [''Parameters''] = Some ''Parameters''
   \<and> wire_key action_go ''ActionSpec'' [''Parameters''] = Some ''Parameters''
   \<and> ''parameters'' \<notin> set (all_keys action_binding_go)
   \<and> ''parameters'' \<notin> set (all_keys action_types_go)
   \<and> ''parameters'' \<notin> set (all_keys action_go)
   \<and> ''Parameters'' |\<in>| member_keys (marshal_ActionSpec zero_ActionSpec)
   \<and> ''parameters'' |\<notin>| member_keys (marshal_ActionSpec zero_ActionSpec)"
  using wire_keys_of_Parameters by (simp add: member_keys_ActionSpec zero_ActionSpec_def)

lemma wire_keys_of_the_fields:
  "wire_key action_binding_go ''Action'' [''Spec''] = Some ''spec''
   \<and> wire_key action_binding_go ''Action'' [''Status''] = Some ''status''
   \<and> wire_key action_binding_go ''Action'' [''ObjectMeta''] = Some ''metadata''
   \<and> wire_key action_binding_go ''BindingSpec'' [''HTTP'', ''URL''] = Some ''url''
   \<and> wire_key action_binding_go ''ParameterBinding'' [''ConfigMapKeyRef''] = Some ''configMapKeyRef''
   \<and> wire_key action_binding_go ''Schema'' [''ConfigMapKeyRef''] = Some ''configMapKeyRef''
   \<and> wire_key action_binding_go ''ParameterBinding'' [''SecretKeyRef''] = Some ''secretKeyRef''
   \<and> wire_key action_binding_go ''Schema'' [''RegistryRef''] = Some ''registryKeyRef''
   \<and> wire_key action_binding_go ''BindingSpec'' [''Dependency'', ''Dependencies'']
       = Some ''dependencies''
   \<and> wire_key action_binding_go ''ActionSpec'' [''Parameters''] = Some ''Parameters''
   \<and> wire_key action_binding_go ''BindingSpec'' [''HTTP'', ''Parameters''] = Some ''Parameters''
   \<and> wire_key action_binding_go ''ActionSpec'' [''Binding''] = Some ''binding''
   \<and> wire_key action_binding_go ''ActionSpec'' [''Meta''] = Some ''meta''
   \<and> wire_key action_binding_go ''Message'' [''ContentType''] = Some ''contentType''
   \<and> wire_key action_binding_go ''Message'' [''Schema''] = Some ''schema''
   \<and> wire_key action_binding_go ''Parameter'' [''Schema''] = Some ''schema''
   \<and> wire_key action_types_go ''Action'' [''Spec''] = Some ''spec''
   \<and> wire_key action_types_go ''Action'' [''Status''] = Some ''status''
   \<and> wire_key action_types_go ''Action'' [''ObjectMeta''] = Some ''metadata''
   \<and> wire_key action_types_go ''ImplementationSpec'' [''Endpoint'', ''URL''] = Some ''url''
   \<and> wire_key action_types_go ''ParameterBinding'' [''ConfigMapKeyRef''] = Some ''configMapKeyRef''
   \<and> wire_key action_types_go ''Schema'' [''ConfigMapKeyRef''] = Some ''configMapKeyRef''
   \<and> wire_key action_types_go ''ParameterBinding'' [''SecretKeyRef''] = Some ''secretKeyRef''
   \<and> wire_key action_types_go ''Schema'' [''RegistryRef''] = Some ''registryKeyRef''
   \<and> wire_key action_types_go ''ImplementationSpec'' [''Dependency'', ''Dependencies'']
       = Some ''dependencies''
   \<and> wire_key action_types_go ''ActionSpec'' [''Parameters''] = Some ''Parameters''
   \<and> wire_key action_types_go ''ActionSpec'' [''Meta''] = Some ''meta''
   \<and> wire_key action_types_go ''Parameter'' [''Schema''] = Some ''schema''"
  by code_simp

text \<open>
  Claim C7, amended. The fields are written under the keys \<open>spec\<close>, \<open>status\<close>,
  \<open>metadata\<close>, \<open>url\<close>, \<open>configMapKeyRef\<close>, \<open>secretKeyRef\<close>, \<open>registryKeyRef\<close>,
  \<open>dependencies\<close>, \<open>binding\<close>, \<open>meta\<close>, \<open>contentType\<close> and \<open>schema\<close>, as their tags say;
  the untagged field \<open>Parameters\<close> is written under \<open>Parameters\<close>. Of the structs of
  \<open>action_types.go\<close>, every Action is written with the members \<open>metadata\<close>, \<open>spec\<close> and
  \<open>status\<close>, and every spec with the member \<open>Parameters\<close> and without a member
  \<open>parameters\<close>.
\<close>

theorem C7_wire_keys:
  "wire_key action_binding_go ''Action'' [''Spec''] = Some ''spec''
   \<and> wire_key action_binding_go ''Action'' [''Status''] = Some ''status''
   \<and> wire_key action_binding_go ''Action'' [''ObjectMeta''] = Some ''metadata''
   \<and> wire_key action_binding_go ''BindingSpec'' [''HTTP'', ''URL''] = Some ''url''
   \<and> wire_key action_binding_go ''ParameterBinding'' [''ConfigMapKeyRef''] = Some ''configMapKeyRef''
   \<and> wire_key action_binding_go ''Schema'' [''ConfigMapKeyRef''] = Some ''configMapKeyRef''
   \<and> wire_key action_binding_go ''ParameterBinding'' [''SecretKeyRef''] = Some ''secretKeyRef''
   \<and> wire_key action_binding_go ''Schema'' [''RegistryRef''] = Some ''registryKeyRef''
   \<and> wire_key action_binding_go ''BindingSpec'' [''Dependency'', ''Dependencies'']
       = Some ''dependencies''
   \<and> wire_key action_binding_go ''ActionSpec'' [''Parameters''] = Some ''Parameters''
   \<and> wire_key action_binding_go ''BindingSpec'' [''HTTP'', ''Parameters''] = Some ''Parameters''
   \<and> wire_key action_binding_go ''ActionSpec'' [''Binding''] = Some ''binding''
   \<and> wire_key action_binding_go ''ActionSpec'' [''Meta''] = Some ''meta''
   \<and> wire_key action_binding_go ''Message'' [''ContentType''] = Some ''contentType''
   \<and> wire_key action_binding_go ''Message'' [''Schema''] = Some ''schema''
   \<and> wire_key action_binding_go ''Parameter'' [''Schema''] = Some ''schema''
   \<and> wire_key action_types_go ''Action'' [''Spec''] = Some ''spec''
   \<and> wire_key action_types_go ''Action'' [''Status''] = Some ''status''
   \<and> wire_key action_types_go ''Action'' [''ObjectMeta''] = Some ''metadata''
   \<and> wire_key action_types_go ''ImplementationSpec'' [''Endpoint'', ''URL''] = Some ''url''
   \<and> wire_key action_types_go ''ParameterBinding'' [''ConfigMapKeyRef''] = Some ''configMapKeyRef''
   \<and> wire_key action_types_go ''Schema'' [''ConfigMapKeyRef''] = Some ''configMapKeyRef''
   \<and> wire_key action_types_go ''ParameterBinding'' [''SecretKeyRef''] = Some ''secretKeyRef''
   \<and> wire_key action_types_go ''Schema'' [''RegistryRef''] = Some ''registryKeyRef''
   \<and> wire_key action_types_go ''ImplementationSpec'' [''Dependency'', ''Dependencies'']
       = Some ''dependencies''
   \<and> wire_key action_types_go ''ActionSpec'' [''Parameters''] = Some ''Parameters''
   \<and> wire_key action_types_go ''ActionSpec'' [''Meta''] = Some ''meta''
   \<and> wire_key action_types_go ''Parameter'' [''Schema''] = Some ''schema''
   \<and> (\<forall>a. ''metadata'' |\<in>| member_keys (marshal_Action a)
          \<and> ''spec'' |\<in>| member_keys (marshal_Action a)
          \<and> ''status'' |\<in>| member_keys (marshal_Action a))
   \<and> (\<forall>s. ''Parameters'' |\<in>| member_keys (marshal_ActionSpec s)
          \<and> ''parameters'' |\<notin>| member_keys (marshal_ActionSpec s))"
proof -
  have "''metadata'' |\<in>| member_keys (marshal_Action a)
      \<and> ''spec'' |\<in>| member_keys (marshal_Action a)
      \<and> ''status'' |\<in>| member_keys (marshal_Action a)" for a
    by (simp add: member_keys_Action)
  moreover have "''Parameters'' |\<in>| member_keys (marshal_ActionSpec s)
      \<and> ''parameters'' |\<notin>| member_keys (marshal_ActionSpec s)" for s
    by (simp add: member_keys_ActionSpec split: option.splits)
  ultimately show ?thesis
    using wire_keys_of_the_fields by simp
qed

section \<open>Deserializing what serialization wrote\<close>

subsection \<open>Strings and keys\<close>

lemma coerce_from_eq_Nil [simp]: "coerce_from k s = [] \<longleftrightarrow> s = []"
  by (cases "(k, s)" rule: coerce_from.cases)
    (auto simp: replacement_character_def split: nat.splits)

lemma utf8_coerce_eq_Nil [simp]: "utf8_coerce s = [] \<longleftrightarrow> s = []"
  by (simp add: utf8_coerce_def)

lemma marshal_string_not_null [simp]: "marshal_string s \<noteq> JNull"
  by (simp add: marshal_string_def)

lemma marshal_string_not_empty: "s \<noteq> [] \<Longrightarrow> marshal_string s \<noteq> JString []"
  by (simp add: marshal_string_def)

lemma dec_string_marshal_string [simp]:
  "valid_utf8 s \<Longrightarrow> dec_string (marshal_string s) = Some s"
  by (simp add: marshal_string_def valid_utf8_def)

lemma fold_keys [simp]:
  "fold_key ''type'' = ''TYPE''"
  "fold_key ''id'' = ''ID''"
  "fold_key ''format'' = ''FORMAT''"
  "fold_key ''registryKeyRef'' = ''REGISTRYKEYREF''"
  "fold_key ''configMapKeyRef'' = ''CONFIGMAPKEYREF''"
  "fold_key ''secretKeyRef'' = ''SECRETKEYREF''"
  "fold_key ''name'' = ''NAME''"
  "fold_key ''description'' = ''DESCRIPTION''"
  "fold_key ''required'' = ''REQUIRED''"
  "fold_key ''schema'' = ''SCHEMA''"
  "fold_key ''target'' = ''TARGET''"
  "fold_key ''url'' = ''URL''"
  "fold_key ''Parameters'' = ''PARAMETERS''"
  "fold_key ''container'' = ''CONTAINER''"
  "fold_key ''dependencies'' = ''DEPENDENCIES''"
  "fold_key ''Endpoint'' = ''ENDPOINT''"
  "fold_key ''Container'' = ''CONTAINER''"
  "fold_key ''Dependency'' = ''DEPENDENCY''"
  "fold_key ''in'' = ''IN''"
  "fold_key ''out'' = ''OUT''"
  "fold_key ''metadata'' = ''METADATA''"
  "fold_key ''DataShape'' = ''DATASHAPE''"
  "fold_key ''meta'' = ''META''"
  "fold_key ''kind'' = ''KIND''"
  "fold_key ''apiVersion'' = ''APIVERSION''"
  "fold_key ''spec'' = ''SPEC''"
  "fold_key ''status'' = ''STATUS''"
  by code_simp+

declare fold_key.simps [simp del]

subsection \<open>Looking a member up in the object serialization builds\<close>

declare fmap_of_list_app [simp del] and fmap_of_list_simps [simp del]

lemma find_member_Nil: "find_member (fmap_of_list []) n = None"
  by (simp add: find_member_def folded_members_def fmap_of_list_simps sorted_list_of_fmap_def
      sorted_list_of_fset.rep_eq)

lemma find_member_Cons_same: "find_member (fmap_of_list ((n, j) # ms)) n = Some j"
  by (simp add: find_member_def fmlookup_of_list)

lemma find_member_Cons_other:
  assumes "fold_key k \<noteq> fold_key n"
  shows "find_member (fmap_of_list ((k, j) # ms)) n = find_member (fmap_of_list ms) n"
proof -
  from assms have "k \<noteq> n"
    by auto
  then have found: "fmlookup (fmap_of_list ((k, j) # ms)) n = fmlookup (fmap_of_list ms) n"
    by (simp add: fmlookup_of_list)
  have folded: "folded_members (fmap_of_list ((k, j) # ms)) n
      = folded_members (fmap_of_list ms) n"
    using assms by (simp add: folded_members_def fmap_of_list_simps)
  show ?thesis
    unfolding find_member_def found folded ..
qed

lemma get_member_Nil [simp]: "get_member dec z (fmap_of_list []) k = Some z"
  by (simp add: get_member_def find_member_Nil)

lemma get_member_Cons_same [simp]:
  "get_member dec z (fmap_of_list ((k, j) # ms)) k = (if j = JNull then Some z else dec j)"
  by (simp add: get_member_def find_member_Cons_same split: json.splits)

lemma get_member_Cons_other [simp]:
  "fold_key k' \<noteq> fold_key k \<Longrightarrow>
     get_member dec z (fmap_of_list ((k', j) # ms)) k = get_member dec z (fmap_of_list ms) k"
  by (simp add: get_member_def find_member_Cons_other)

lemma get_member_string_omitempty_same [simp]:
  "get_member dec z (fmap_of_list (string_omitempty k s @ ms)) k =
     (if s = [] then get_member dec z (fmap_of_list ms) k else dec (marshal_string s))"
  by (simp add: string_omitempty_def)

lemma get_member_string_omitempty_other [simp]:
  "fold_key k' \<noteq> fold_key k \<Longrightarrow>
     get_member dec z (fmap_of_list (string_omitempty k' s @ ms)) k
       = get_member dec z (fmap_of_list ms) k"
  by (simp add: string_omitempty_def)

lemma get_member_string_omitempty_same_last [simp]:
  "get_member dec z (fmap_of_list (string_omitempty k s)) k =
     (if s = [] then Some z else dec (marshal_string s))"
  using get_member_string_omitempty_same [of dec z k s "[]"] by simp

lemma get_member_string_omitempty_other_last [simp]:
  "fold_key k' \<noteq> fold_key k \<Longrightarrow>
     get_member dec z (fmap_of_list (string_omitempty k' s)) k = Some z"
  using get_member_string_omitempty_other [of k' k dec z s "[]"] by simp

lemma get_member_pointer_omitempty_same [simp]:
  "get_member dec z (fmap_of_list (pointer_omitempty k enc p @ ms)) k =
     (case p of
        None \<Rightarrow> get_member dec z (fmap_of_list ms) k
      | Some x \<Rightarrow> if enc x = JNull then Some z else dec (enc x))"
  by (simp add: pointer_omitempty_def split: option.splits)

lemma get_member_pointer_omitempty_other [simp]:
  "fold_key k' \<noteq> fold_key k \<Longrightarrow>
     get_member dec z (fmap_of_list (pointer_omitempty k' enc p @ ms)) k
       = get_member dec z (fmap_of_list ms) k"
  by (simp add: pointer_omitempty_def split: option.splits)

lemma get_member_pointer_omitempty_same_last [simp]:
  "get_member dec z (fmap_of_list (pointer_omitempty k enc p)) k =
     (case p of None \<Rightarrow> Some z | Some x \<Rightarrow> if enc x = JNull then Some z else dec (enc x))"
  using get_member_pointer_omitempty_same [of dec z k enc p "[]"]
  by (simp split: option.splits)

lemma get_member_pointer_omitempty_other_last [simp]:
  "fold_key k' \<noteq> fold_key k \<Longrightarrow>
     get_member dec z (fmap_of_list (pointer_omitempty k' enc p)) k = Some z"
  using get_member_pointer_omitempty_other [of k' k dec z enc p "[]"] by simp

lemma get_member_slice_omitempty_same_last [simp]:
  "get_member dec z (fmap_of_list (slice_omitempty k enc xs)) k =
     (if xs = [] then Some z else dec (JArray (map enc xs)))"
  by (simp add: slice_omitempty_def)

lemma get_member_map_omitempty_same_last [simp]:
  "get_member dec z (fmap_of_list (map_omitempty k enc m)) k =
     (if m = fmempty then Some z else dec (marshal_map enc m))"
  by (simp add: map_omitempty_def marshal_map_def)

lemma get_member_map_omitempty_other_last [simp]:
  "fold_key k' \<noteq> fold_key k \<Longrightarrow>
     get_member dec z (fmap_of_list (map_omitempty k' enc m)) k = Some z"
  by (simp add: map_omitempty_def)

subsection \<open>Pointers, slices and maps\<close>

lemma dec_pointer_nullable:
  assumes "\<And>x. P x \<Longrightarrow> dec (enc x) = Some x" and "\<And>x. enc x \<noteq> JNull"
    and "case p of None \<Rightarrow> True | Some x \<Rightarrow> P x"
  shows "(if nullable enc p = JNull then Some None else dec_pointer dec (nullable enc p)) = Some p"
  using assms by (cases p) (simp_all add: nullable_def dec_pointer_def)

lemma dec_slice_map:
  assumes "\<And>x. P x \<Longrightarrow> dec (enc x) = Some x" and "\<And>x. enc x \<noteq> JNull"
    and "list_all P xs"
  shows "dec_slice dec zero (JArray (map enc xs)) = Some xs"
proof -
  from assms(3) have "those (map (dec_element dec zero) (map enc xs)) = Some xs"
  proof (induction xs)
    case Nil
    show ?case by simp
  next
    case (Cons x xs)
    then have "P x"
      by simp
    then have "dec_element dec zero (enc x) = Some x"
      using assms(1,2) [of x] by (cases "enc x") (simp_all add: dec_element_def)
    with Cons show ?case by simp
  qed
  then show ?thesis by simp
qed

lemma rev_map_of:
  assumes "distinct (map fst xs)"
  shows "map_of (rev xs) = map_of xs"
  using assms by (subst map_of_inject_set) (simp_all add: rev_map [symmetric])

lemma distinct_keys_sorted_list: "distinct (map fst (sorted_list_of_fmap m))"
  by (simp add: sorted_list_of_fmap_def comp_def sorted_list_of_fset.rep_eq)

lemma keyed_valid:
  assumes "fmpred (\<lambda>k v. valid_utf8 k) m"
  shows "keyed f m = fmmap f m"
proof (rule fmap_ext)
  fix x
  let ?l = "sorted_list_of_fmap m"
  have "list_all (\<lambda>(k, v). valid_utf8 k) ?l"
    using assms by (simp add: curry_def case_prod_beta)
  then have kept: "map (\<lambda>(k, v). (utf8_coerce k, f v)) (rev ?l)
      = map (\<lambda>(k, v). (k, f v)) (rev ?l)"
    by (intro map_cong) (auto simp: list_all_iff valid_utf8_def)
  have "fmlookup (keyed f m) x = map_of (map (\<lambda>(k, v). (k, f v)) (rev ?l)) x"
    unfolding keyed_def fmlookup_of_list kept ..
  also have "\<dots> = map_option f (map_of (rev ?l) x)"
    by (simp add: map_of_map)
  also have "\<dots> = map_option f (fmlookup m x)"
    by (simp add: rev_map_of distinct_keys_sorted_list)
  finally show "fmlookup (keyed f m) x = fmlookup (fmmap f m) x"
    by simp
qed

lemma dec_map_marshal_map:
  assumes "\<And>x. P x \<Longrightarrow> dec (enc x) = Some x" and "\<And>x. enc x \<noteq> JNull"
    and "fmpred (\<lambda>k v. valid_utf8 k \<and> P v) m"
  shows "dec_map dec zero (marshal_map enc m) = Some m"
proof -
  have keys: "fmpred (\<lambda>k v. valid_utf8 k) m" and vals: "fmpred (\<lambda>k v. P v) m"
    using assms(3) by (auto simp: fmpred_iff)
  have elem: "dec_element dec zero (enc x) = Some x" if "P x" for x
    using assms(1,2) [of x] that by (cases "enc x") (simp_all add: dec_element_def)
  have written: "marshal_map enc m = JObject (fmmap enc m)"
    by (simp add: marshal_map_def keyed_valid [OF keys])
  have "fmpred (\<lambda>k j. dec_element dec zero j \<noteq> None) (fmmap enc m)"
    using vals elem by (auto simp: fmpred_iff)
  moreover have "keyed (\<lambda>j. the (dec_element dec zero j)) (fmmap enc m) = m"
  proof -
    have "fmpred (\<lambda>k v. valid_utf8 k) (fmmap enc m)"
      using keys by (auto simp: fmpred_iff)
    then have "keyed (\<lambda>j. the (dec_element dec zero j)) (fmmap enc m)
        = fmmap (\<lambda>j. the (dec_element dec zero j)) (fmmap enc m)"
      by (rule keyed_valid)
    also have "\<dots> = m"
    proof (rule fmap_ext)
      fix k
      show "fmlookup (fmmap (\<lambda>j. the (dec_element dec zero j)) (fmmap enc m)) k = fmlookup m k"
      proof (cases "fmlookup m k")
        case None
        then show ?thesis by simp
      next
        case (Some v)
        with vals have "P v"
          by (auto simp: fmpred_iff)
        with Some show ?thesis
          by (simp add: elem)
      qed
    qed
    finally show ?thesis .
  qed
  ultimately show ?thesis
    by (simp add: written)
qed

subsection \<open>The structs\<close>

lemma object_not_null [simp]: "object ms \<noteq> JNull"
  by (simp add: object_def)

lemma marshal_map_not_null [simp]: "marshal_map enc m \<noteq> JNull"
  by (simp add: marshal_map_def)

lemma unmarshal_imported_marshal [simp]:
  "readable reader x \<Longrightarrow> unmarshal_imported reader (marshal_imported x) = Some x"
  by (cases x) (simp add: marshal_imported_def readable_def)

lemma marshal_imported_not_null [simp]: "marshal_imported x \<noteq> JNull"
  by (cases x) (simp add: marshal_imported_def)

lemma unmarshal_Dependency_marshal [simp]:
  "well_formed_Dependency d \<Longrightarrow> unmarshal_Dependency (marshal_Dependency d) = Some d"
  by (cases d) (simp add: marshal_Dependency_def object_def well_formed_Dependency_def)

lemma marshal_Dependency_not_null [simp]: "marshal_Dependency d \<noteq> JNull"
  by (simp add: marshal_Dependency_def)

lemma unmarshal_Schema_marshal [simp]:
  "well_formed_Schema z s \<Longrightarrow> unmarshal_Schema z (marshal_Schema s) = Some s"
  by (cases s)
    (simp add: marshal_Schema_def object_def well_formed_Schema_def readable_pointer_def
      dec_pointer_def split: option.splits)

lemma marshal_Schema_not_null [simp]: "marshal_Schema s \<noteq> JNull"
  by (simp add: marshal_Schema_def)

lemma unmarshal_Parameter_marshal [simp]:
  "well_formed_Parameter z p \<Longrightarrow> unmarshal_Parameter z (marshal_Parameter p) = Some p"
  by (cases p) (simp add: marshal_Parameter_def object_def well_formed_Parameter_def)

lemma marshal_Parameter_not_null [simp]: "marshal_Parameter p \<noteq> JNull"
  by (simp add: marshal_Parameter_def)

lemma fields_ParameterBinding_members [simp]:
  assumes "well_formed_ParameterBinding z b"
    and "fold_key k \<notin> {''NAME'', ''CONFIGMAPKEYREF'', ''SECRETKEYREF''}"
  shows "fields_ParameterBinding z (fmap_of_list (members_ParameterBinding b @ [(k, j)])) = Some b"
proof -
  from assms(2) have "fold_key k \<noteq> ''NAME''" "fold_key k \<noteq> ''CONFIGMAPKEYREF''"
    "fold_key k \<noteq> ''SECRETKEYREF''"
    by simp_all
  with assms(1) show ?thesis
    by (cases b)
      (simp add: fields_ParameterBinding_def members_ParameterBinding_def
        well_formed_ParameterBinding_def readable_pointer_def dec_pointer_def
        split: option.splits)
qed

lemma fields_ParameterBinding_members_string [simp]:
  assumes "well_formed_ParameterBinding z b"
    and "fold_key k \<notin> {''NAME'', ''CONFIGMAPKEYREF'', ''SECRETKEYREF''}"
  shows "fields_ParameterBinding z
     (fmap_of_list (members_ParameterBinding b @ string_omitempty k s)) = Some b"
proof -
  from assms(2) have "fold_key k \<noteq> ''NAME''" "fold_key k \<noteq> ''CONFIGMAPKEYREF''"
    "fold_key k \<noteq> ''SECRETKEYREF''"
    by simp_all
  with assms(1) show ?thesis
    by (cases b)
      (simp add: fields_ParameterBinding_def members_ParameterBinding_def
        well_formed_ParameterBinding_def readable_pointer_def dec_pointer_def
        split: option.splits)
qed

lemma get_member_after_ParameterBinding [simp]:
  assumes "fold_key k \<notin> {''NAME'', ''CONFIGMAPKEYREF'', ''SECRETKEYREF''}"
  shows "get_member dec z (fmap_of_list (members_ParameterBinding b @ ms)) k
     = get_member dec z (fmap_of_list ms) k"
proof -
  from assms have "''NAME'' \<noteq> fold_key k" "''CONFIGMAPKEYREF'' \<noteq> fold_key k"
    "''SECRETKEYREF'' \<noteq> fold_key k"
    by auto
  then show ?thesis
    by (simp add: members_ParameterBinding_def split: option.splits)
qed

lemma unmarshal_Endpoint_Parameter_marshal [simp]:
  "well_formed_Endpoint_Parameter z p \<Longrightarrow>
     unmarshal_Endpoint_Parameter z (marshal_Endpoint_Parameter p) = Some p"
  by (cases p)
    (simp add: marshal_Endpoint_Parameter_def object_def well_formed_Endpoint_Parameter_def)

lemma marshal_Endpoint_Parameter_not_null [simp]: "marshal_Endpoint_Parameter p \<noteq> JNull"
  by (simp add: marshal_Endpoint_Parameter_def)

lemma unmarshal_Endpoint_marshal [simp]:
  assumes "well_formed_Endpoint z e"
  shows "unmarshal_Endpoint z (marshal_Endpoint e) = Some e"
proof -
  let ?enc = "\<lambda>ps. JArray (map marshal_Endpoint_Parameter ps)"
  have "(if nullable ?enc p = JNull then Some None
         else dec_pointer (dec_slice (unmarshal_Endpoint_Parameter z) zero_Endpoint_Parameter)
           (nullable ?enc p)) = Some p"
    if "case p of None \<Rightarrow> True | Some ps \<Rightarrow> list_all (well_formed_Endpoint_Parameter z) ps"
    for p
    using _ _ that
    by (rule dec_pointer_nullable [where P = "list_all (well_formed_Endpoint_Parameter z)"])
      (rule dec_slice_map [where P = "well_formed_Endpoint_Parameter z"], simp_all)
  with assms show ?thesis
    by (cases e) (simp add: marshal_Endpoint_def object_def well_formed_Endpoint_def)
qed

lemma marshal_Endpoint_not_null [simp]: "marshal_Endpoint e \<noteq> JNull"
  by (simp add: marshal_Endpoint_def)

lemma unmarshal_Container_Parameter_marshal [simp]:
  "well_formed_Container_Parameter z p \<Longrightarrow>
     unmarshal_Container_Parameter z (marshal_Container_Parameter p) = Some p"
  by (cases p)
    (simp add: marshal_Container_Parameter_def object_def well_formed_Container_Parameter_def)

lemma marshal_Container_Parameter_not_null [simp]: "marshal_Container_Parameter p \<noteq> JNull"
  by (simp add: marshal_Container_Parameter_def)

lemma unmarshal_Container_marshal [simp]:
  assumes "well_formed_Container z c"
  shows "unmarshal_Container z (marshal_Container c) = Some c"
proof -
  let ?enc = "\<lambda>ps. JArray (map marshal_Container_Parameter ps)"
  have "(if nullable ?enc p = JNull then Some None
         else dec_pointer (dec_slice (unmarshal_Container_Parameter z) (zero_Container_Parameter z))
           (nullable ?enc p)) = Some p"
    if "case p of None \<Rightarrow> True | Some ps \<Rightarrow> list_all (well_formed_Container_Parameter z) ps"
    for p
    using _ _ that
    by (rule dec_pointer_nullable [where P = "list_all (well_formed_Container_Parameter z)"])
      (rule dec_slice_map [where P = "well_formed_Container_Parameter z"], simp_all)
  with assms show ?thesis
    by (cases c) (simp add: marshal_Container_def object_def well_formed_Container_def)
qed

lemma marshal_Container_not_null [simp]: "marshal_Container c \<noteq> JNull"
  by (simp add: marshal_Container_def)

lemma unmarshal_Dependency_struct_marshal [simp]:
  assumes "well_formed_Dependency_struct d"
  shows "unmarshal_Dependency_struct (marshal_Dependency_struct d) = Some d"
proof -
  have "dec_slice unmarshal_Dependency zero_Dependency (JArray (map marshal_Dependency ds))
      = Some ds" if "list_all well_formed_Dependency ds" for ds
    using _ _ that by (rule dec_slice_map [where P = well_formed_Dependency]) simp_all
  with assms show ?thesis
    by (cases d)
      (simp add: marshal_Dependency_struct_def object_def well_formed_Dependency_struct_def
        del: dec_slice.simps)
qed

lemma marshal_Dependency_struct_not_null [simp]: "marshal_Dependency_struct d \<noteq> JNull"
  by (simp add: marshal_Dependency_struct_def)

lemma fields_ImplementationSpec_members [simp]:
  assumes "well_formed_ImplementationSpec z i"
  shows "fields_ImplementationSpec z (fmap_of_list (members_ImplementationSpec i @ ms)) = Some i"
proof -
  have e: "(if nullable marshal_Endpoint p = JNull then Some None
      else dec_pointer (unmarshal_Endpoint z) (nullable marshal_Endpoint p)) = Some p"
    if "case p of None \<Rightarrow> True | Some x \<Rightarrow> well_formed_Endpoint z x" for p
    using _ _ that by (rule dec_pointer_nullable [where P = "well_formed_Endpoint z"]) simp_all
  have c: "(if nullable marshal_Container p = JNull then Some None
      else dec_pointer (unmarshal_Container z) (nullable marshal_Container p)) = Some p"
    if "case p of None \<Rightarrow> True | Some x \<Rightarrow> well_formed_Container z x" for p
    using _ _ that by (rule dec_pointer_nullable [where P = "well_formed_Container z"]) simp_all
  have d: "(if nullable marshal_Dependency_struct p = JNull then Some None
      else dec_pointer unmarshal_Dependency_struct (nullable marshal_Dependency_struct p))
      = Some p"
    if "case p of None \<Rightarrow> True | Some x \<Rightarrow> well_formed_Dependency_struct x" for p
    using _ _ that by (rule dec_pointer_nullable [where P = well_formed_Dependency_struct]) simp_all
  from assms show ?thesis
    by (cases i)
      (simp add: fields_ImplementationSpec_def members_ImplementationSpec_def
        well_formed_ImplementationSpec_def e c d)
qed

lemma get_member_after_ImplementationSpec [simp]:
  assumes "fold_key k \<notin> {''ENDPOINT'', ''CONTAINER'', ''DEPENDENCY''}"
  shows "get_member dec z (fmap_of_list (members_ImplementationSpec i @ ms)) k
     = get_member dec z (fmap_of_list ms) k"
proof -
  from assms have "''ENDPOINT'' \<noteq> fold_key k" "''CONTAINER'' \<noteq> fold_key k"
    "''DEPENDENCY'' \<noteq> fold_key k"
    by auto
  then show ?thesis
    by (simp add: members_ImplementationSpec_def)
qed

lemma unmarshal_ImplementationSpec_marshal [simp]:
  assumes "well_formed_ImplementationSpec z i"
  shows "unmarshal_ImplementationSpec z (marshal_ImplementationSpec i) = Some i"
  using fields_ImplementationSpec_members [OF assms, of "[]"]
  by (simp add: marshal_ImplementationSpec_def object_def)

lemma marshal_ImplementationSpec_not_null [simp]: "marshal_ImplementationSpec i \<noteq> JNull"
  by (simp add: marshal_ImplementationSpec_def)

lemma unmarshal_DataShape_marshal [simp]:
  assumes "well_formed_DataShape z d"
  shows "unmarshal_DataShape z (marshal_DataShape d) = Some d"
proof -
  have "dec_map dec_string [] (marshal_map marshal_string m) = Some m"
    if "fmpred (\<lambda>k v. valid_utf8 k \<and> valid_utf8 v) m" for m
    using _ _ that by (rule dec_map_marshal_map [where P = valid_utf8]) simp_all
  with assms show ?thesis
    by (cases d)
      (simp add: marshal_DataShape_def object_def well_formed_DataShape_def dec_pointer_def
        split: option.splits)
qed

lemma marshal_DataShape_not_null [simp]: "marshal_DataShape d \<noteq> JNull"
  by (simp add: marshal_DataShape_def)

lemma unmarshal_ActionSpec_marshal [simp]:
  assumes "well_formed_ActionSpec z s"
  shows "unmarshal_ActionSpec z (marshal_ActionSpec s) = Some s"
proof -
  have ps: "(if nullable (marshal_map marshal_Parameter) p = JNull then Some None
         else dec_pointer (dec_map (unmarshal_Parameter z) zero_Parameter)
           (nullable (marshal_map marshal_Parameter) p)) = Some p"
    if "case p of None \<Rightarrow> True
        | Some m \<Rightarrow> fmpred (\<lambda>k v. valid_utf8 k \<and> well_formed_Parameter z v) m" for p
    using _ _ that
    by (rule dec_pointer_nullable
          [where P = "fmpred (\<lambda>k v. valid_utf8 k \<and> well_formed_Parameter z v)"])
      (rule dec_map_marshal_map [where P = "well_formed_Parameter z"], simp_all)
  have impl: "fields_ImplementationSpec z
      (fmap_of_list ((''DataShape'', d) # (''Parameters'', p) # members_ImplementationSpec i @ ms))
      = Some i" if "well_formed_ImplementationSpec z i" for d p i ms
    using fields_ImplementationSpec_members [OF that, of ms]
    by (simp add: fields_ImplementationSpec_def members_ImplementationSpec_def)
  from assms show ?thesis
    by (cases s)
      (simp add: marshal_ActionSpec_def object_def well_formed_ActionSpec_def ps impl
        dec_pointer_def split: option.splits)
qed

lemma marshal_ActionSpec_not_null [simp]: "marshal_ActionSpec s \<noteq> JNull"
  by (simp add: marshal_ActionSpec_def)

lemma unmarshal_ActionStatus_marshal [simp]:
  "unmarshal_ActionStatus (marshal_ActionStatus s) = Some s"
  by (cases s) (simp add: marshal_ActionStatus_def object_def)

lemma unmarshal_Action_marshal:
  assumes "well_formed_Action z a"
  shows "unmarshal_Action z (marshal_Action a) = Some a"
proof (cases a)
  case (fields tm om s st)
  with assms show ?thesis
    by (cases tm; cases st)
      (simp add: marshal_Action_def object_def marshal_ActionStatus_def well_formed_Action_def)
qed

section \<open>Round trips of documents\<close>

subsection \<open>What every serialized Action looks like\<close>

lemma lookup_member_Action:
  "lookup_member (marshal_Action a) ''spec'' = marshal_ActionSpec (Action_Spec a)"
  "lookup_member (marshal_Action a) ''kind'' \<noteq> JString []"
  "lookup_member (marshal_Action a) ''apiVersion'' \<noteq> JString []"
  by (simp_all add: marshal_Action_def object_def string_omitempty_def marshal_string_def
      fmlookup_of_list)

lemma lookup_member_ActionSpec:
  "lookup_member (marshal_ActionSpec s) ''Parameters''
     = nullable (marshal_map marshal_Parameter) (ActionSpec_Parameters s)"
  by (simp add: marshal_ActionSpec_def object_def fmlookup_of_list)

lemma member_keys_Parameter: "''schema'' |\<in>| member_keys (marshal_Parameter p)"
  by (simp add: marshal_Parameter_def object_def string_omitempty_def fmap_of_list_app)

lemma lookup_member_Parameter:
  "lookup_member (marshal_Parameter p) ''name'' \<noteq> JString []"
  "lookup_member (marshal_Parameter p) ''description'' \<noteq> JString []"
  "lookup_member (marshal_Parameter p) ''required'' \<noteq> JString []"
  by (simp_all add: marshal_Parameter_def object_def string_omitempty_def marshal_string_def
      fmlookup_of_list)

lemma keyed_member:
  assumes "fmlookup (keyed f m) k = Some j"
  shows "\<exists>v. j = f v"
proof -
  from assms have "(k, j) \<in> set (map (\<lambda>(k, v). (utf8_coerce k, f v)) (rev (sorted_list_of_fmap m)))"
    by (auto simp: keyed_def fmlookup_of_list dest: map_of_SomeD)
  then show ?thesis
    by auto
qed

lemma written_parameters:
  assumes "n |\<in>| member_keys (parameters_of (marshal_Action a))"
  shows "\<exists>p. lookup_member (parameters_of (marshal_Action a)) n = marshal_Parameter p"
proof (cases "ActionSpec_Parameters (Action_Spec a)")
  case None
  with assms show ?thesis
    by (simp add: parameters_of_def lookup_member_Action lookup_member_ActionSpec nullable_def)
next
  case (Some m)
  with assms obtain j where j: "fmlookup (keyed marshal_Parameter m) n = Some j"
    by (auto simp: parameters_of_def lookup_member_Action lookup_member_ActionSpec nullable_def
        marshal_map_def dest: fmdomE)
  then obtain p where "j = marshal_Parameter p"
    using keyed_member [of marshal_Parameter m n j] by blast
  with j Some show ?thesis
    by (auto simp: parameters_of_def lookup_member_Action lookup_member_ActionSpec nullable_def
        marshal_map_def)
qed

lemma written_form_marshal_Action: "written_form (marshal_Action a)"
proof -
  have "''schema'' |\<in>| member_keys (lookup_member (parameters_of (marshal_Action a)) n)
      \<and> lookup_member (lookup_member (parameters_of (marshal_Action a)) n) ''name'' \<noteq> JString []
      \<and> lookup_member (lookup_member (parameters_of (marshal_Action a)) n) ''description''
          \<noteq> JString []
      \<and> lookup_member (lookup_member (parameters_of (marshal_Action a)) n) ''required''
          \<noteq> JString []"
    if "n |\<in>| member_keys (parameters_of (marshal_Action a))" for n
    using written_parameters [OF that]
    by (auto simp: member_keys_Parameter lookup_member_Parameter)
  then show ?thesis
    by (simp add: written_form_def member_keys_Action member_keys_ActionSpec lookup_member_Action)
qed

lemma roundtrip_written_form: "roundtrip z D = Some D' \<Longrightarrow> written_form D'"
  by (auto simp: roundtrip_def written_form_marshal_Action)

subsection \<open>The document of \<open>search\<close>\<close>

lemma search_reads: "unmarshal_Action example_imports search_document = Some search_action"
  by code_simp

lemma search_written: "marshal_Action search_action = search_rewritten"
  by code_simp

lemma search_well_formed: "well_formed_Action example_imports search_action"
  by code_simp

lemma search_roundtrip: "roundtrip example_imports search_document = Some search_rewritten"
  by (simp add: roundtrip_def search_reads search_written)

lemma search_rewritten_differs: "search_rewritten \<noteq> search_document"
  by code_simp

lemma search_document_valid: "\<not> isl (validate_document example_imports search_document)"
  by code_simp

lemma search_document_form: "\<not> written_form search_document"
  by code_simp

text \<open>
  Claim C4, as the spec states it: serializing the result of deserializing a valid
  document gives the document back, up to the order of keys. The document of \<open>search\<close>
  is deserialized without error and passes the validation the spec describes, and what is
  then serialized differs from it: the description of \<open>q\<close>, an empty string under a tag
  with \<open>omitempty\<close>, is gone, and the members \<open>status\<close>, \<open>DataShape\<close>, \<open>Container\<close>
  and \<open>Dependency\<close>, whose fields are structs or have no \<open>omitempty\<close>, have been added
  (with the example instance of the imported types, \<open>creationTimestamp\<close> in \<open>metadata\<close>
  too). Whatever the imported types are, the round trip does not give the document back.
\<close>

theorem C4_roundtrip_rewrites_a_document:
  "\<not> isl (validate_document example_imports search_document)
   \<and> roundtrip example_imports search_document = Some search_rewritten
   \<and> search_rewritten \<noteq> search_document
   \<and> (\<forall>z. roundtrip z search_document \<noteq> Some search_document)"
proof -
  have "roundtrip z search_document \<noteq> Some search_document" for z
    using roundtrip_written_form [of z search_document search_document] search_document_form
    by blast
  then show ?thesis
    using search_document_valid search_roundtrip search_rewritten_differs by simp
qed

text \<open>
  Claim C4, amended. An Action is well formed when its strings, the keys of its maps
  included, are well-formed UTF-8 and its values of imported types are read back from
  what they are written as. Deserializing the serialization of a well-formed Action
  gives the Action back, so the document written for it is given back by the round trip.
  Every document that serialization writes has the written form: the members \<open>metadata\<close>,
  \<open>spec\<close> and \<open>status\<close>, in \<open>spec\<close> the members \<open>DataShape\<close>, \<open>Parameters\<close>,
  \<open>Endpoint\<close>, \<open>Container\<close> and \<open>Dependency\<close>, no empty string under \<open>kind\<close> or
  \<open>apiVersion\<close>, and in every parameter the member \<open>schema\<close> and no empty string under
  \<open>name\<close>, \<open>description\<close> or \<open>required\<close>. So the result of a round trip has this
  form, and the round trip gives back no document that has not.
\<close>

theorem C4_round_trip_of_written_documents:
  "(well_formed_Action z a \<longrightarrow>
      unmarshal_Action z (marshal_Action a) = Some a
      \<and> roundtrip z (marshal_Action a) = Some (marshal_Action a))
   \<and> written_form (marshal_Action a)
   \<and> (roundtrip z D = Some D' \<longrightarrow> written_form D')
   \<and> (\<not> written_form D \<longrightarrow> roundtrip z D \<noteq> Some D)"
proof -
  have "unmarshal_Action z (marshal_Action a) = Some a
      \<and> roundtrip z (marshal_Action a) = Some (marshal_Action a)"
    if "well_formed_Action z a"
    using unmarshal_Action_marshal [OF that] by (simp add: roundtrip_def)
  moreover have "written_form (marshal_Action a)"
    by (rule written_form_marshal_Action)
  moreover have "written_form D'" if "roundtrip z D = Some D'"
    using that by (rule roundtrip_written_form)
  moreover have "roundtrip z D \<noteq> Some D" if "\<not> written_form D"
    using that roundtrip_written_form [of z D D] by blast
  ultimately show ?thesis
    by blast
qed

theorem C4_witness:
  "well_formed_Action example_imports search_action
   \<and> roundtrip example_imports search_rewritten = Some search_rewritten
   \<and> written_form search_rewritten
   \<and> \<not> written_form search_document
   \<and> roundtrip example_imports search_document \<noteq> Some search_document"
  using C4_round_trip_of_written_documents
      [of example_imports search_action search_document search_rewritten]
    search_well_formed search_written search_roundtrip search_document_form
  by simp

section \<open>The \<open>Required\<close> flag of a parameter\<close>

lemma Required_declarations:
  "type_at action_go ''Parameter'' [''Required''] = Some TString
   \<and> type_at action_types_go ''Parameter'' [''Required''] = Some TString
   \<and> type_at action_binding_go ''Parameter'' [''Required''] = Some TString
   \<and> type_at action_binding_go ''Parameter'' [''Deprecated''] = Some TString
   \<and> tag_at action_go ''Parameter'' [''Required''] = Some ''required,omitempty''
   \<and> tag_at action_types_go ''Parameter'' [''Required''] = Some ''required,omitempty''
   \<and> tag_at action_binding_go ''Parameter'' [''Required''] = Some ''required,omitempty''
   \<and> tag_at action_binding_go ''Parameter'' [''Deprecated''] = Some ''deprecated,omitempty''
   \<and> omitempty ''required,omitempty'' \<and> omitempty ''deprecated,omitempty''"
  by (simp add: type_at_def tag_at_def field_at_def field_named_def action_go_def
      action_types_go_def action_binding_go_def Parameter_decl_def omitempty_def)

lemma valid_utf8_examples:
  "valid_utf8 []" "valid_utf8 ''true''" "valid_utf8 ''false''" "valid_utf8 ''maybe''"
  by code_simp+

lemma coerced_example: "utf8_coerce [CHR 0xC3, CHR ''(''] = replacement_character @ ''(''"
  by code_simp

text \<open>
  Claim C10. In every revision the field \<open>Required\<close> of \<open>Parameter\<close> is declared
  \<open>string\<close> with the tag \<open>required,omitempty\<close>, and so is \<open>Deprecated\<close> in the latest
  revision (tag \<open>deprecated,omitempty\<close>). Deserialization of a \<open>Parameter\<close> accepts any
  string under \<open>required\<close> and stores it, with the bytes that are not well-formed UTF-8
  replaced by U+FFFD: a string of well-formed UTF-8 is stored as it is, the empty string
  and a string such as \<open>maybe\<close> included. It accepts a document without the member, or
  with \<open>null\<close> for it, and refuses a JSON boolean. Serialization leaves the member out
  when the string is empty, and else writes the string. Nothing gives the string the
  meaning of a boolean.
\<close>

theorem C10_Required_is_a_free_form_string:
  "type_at action_go ''Parameter'' [''Required''] = Some TString
   \<and> type_at action_types_go ''Parameter'' [''Required''] = Some TString
   \<and> type_at action_binding_go ''Parameter'' [''Required''] = Some TString
   \<and> type_at action_binding_go ''Parameter'' [''Deprecated''] = Some TString
   \<and> tag_at action_go ''Parameter'' [''Required''] = Some ''required,omitempty''
   \<and> tag_at action_types_go ''Parameter'' [''Required''] = Some ''required,omitempty''
   \<and> tag_at action_binding_go ''Parameter'' [''Required''] = Some ''required,omitempty''
   \<and> tag_at action_binding_go ''Parameter'' [''Deprecated''] = Some ''deprecated,omitempty''
   \<and> omitempty ''required,omitempty'' \<and> omitempty ''deprecated,omitempty''
   \<and> (\<forall>z s. unmarshal_Parameter z (object [(''required'', JString s)])
          = Some (zero_Parameter\<lparr>Parameter_Required := utf8_coerce s\<rparr>))
   \<and> (\<forall>z s. valid_utf8 s \<longrightarrow>
          unmarshal_Parameter z (object [(''required'', JString s)])
            = Some (zero_Parameter\<lparr>Parameter_Required := s\<rparr>))
   \<and> valid_utf8 [] \<and> valid_utf8 ''true'' \<and> valid_utf8 ''false'' \<and> valid_utf8 ''maybe''
   \<and> (\<forall>z. unmarshal_Parameter z (object []) = Some zero_Parameter)
   \<and> (\<forall>z. unmarshal_Parameter z (object [(''required'', JNull)]) = Some zero_Parameter)
   \<and> (\<forall>z b. unmarshal_Parameter z (object [(''required'', JBool b)]) = None)
   \<and> (\<forall>p. (''required'' |\<in>| member_keys (marshal_Parameter p))
            = (Parameter_Required p \<noteq> []))
   \<and> (\<forall>p. Parameter_Required p \<noteq> [] \<longrightarrow>
          lookup_member (marshal_Parameter p) ''required''
            = JString (utf8_coerce (Parameter_Required p)))"
proof -
  have strings: "unmarshal_Parameter z (object [(''required'', JString s)])
      = Some (zero_Parameter\<lparr>Parameter_Required := utf8_coerce s\<rparr>)" for z s
    by (simp add: object_def zero_Parameter_def)
  then have kept: "unmarshal_Parameter z (object [(''required'', JString s)])
      = Some (zero_Parameter\<lparr>Parameter_Required := s\<rparr>)" if "valid_utf8 s" for z s
    using that by (simp add: valid_utf8_def)
  have absent: "unmarshal_Parameter z (object []) = Some zero_Parameter" for z
    by (simp add: object_def zero_Parameter_def)
  have null: "unmarshal_Parameter z (object [(''required'', JNull)]) = Some zero_Parameter"
    for z
    by (simp add: object_def zero_Parameter_def)
  have booleans: "unmarshal_Parameter z (object [(''required'', JBool b)]) = None" for z b
    by (simp add: object_def)
  have optional: "(''required'' |\<in>| member_keys (marshal_Parameter p))
      = (Parameter_Required p \<noteq> [])" for p
    by (simp add: marshal_Parameter_def object_def string_omitempty_def fmap_of_list_app
        fmap_of_list_simps)
  have written: "lookup_member (marshal_Parameter p) ''required''
      = JString (utf8_coerce (Parameter_Required p))" if "Parameter_Required p \<noteq> []" for p
    using that
    by (simp add: marshal_Parameter_def object_def string_omitempty_def marshal_string_def
        fmlookup_of_list)
  from strings kept absent null booleans optional written show ?thesis
    using Required_declarations valid_utf8_examples by simp
qed

theorem C10_witness:
  "unmarshal_Parameter example_imports (object [(''required'', JString [])]) = Some zero_Parameter
   \<and> unmarshal_Parameter example_imports (object [(''required'', JString ''maybe'')])
       = Some (zero_Parameter\<lparr>Parameter_Required := ''maybe''\<rparr>)
   \<and> unmarshal_Parameter example_imports (object [(''required'', JString [CHR 0xC3, CHR ''(''])])
       = Some (zero_Parameter\<lparr>Parameter_Required := replacement_character @ ''(''\<rparr>)
   \<and> unmarshal_Parameter example_imports (object [(''required'', JBool True)]) = None"
proof -
  have "zero_Parameter\<lparr>Parameter_Required := []\<rparr> = zero_Parameter"
    by (simp add: zero_Parameter_def)
  then show ?thesis
    using C10_Required_is_a_free_form_string coerced_example by metis
qed

section \<open>The variants of a binding, as the code reads them\<close>

lemma length_populated_variants:
  "length (populated_variants i) =
     (if ImplementationSpec_Endpoint i = None then 0 else 1)
     + (if ImplementationSpec_Container i = None then 0 else 1)
     + (if ImplementationSpec_Dependency i = None then 0 else 1)"
  by (simp add: populated_variants_def split: option.splits)

lemma sidecar_reads:
  "unmarshal_ImplementationSpec example_imports sidecar_document = Some sidecar_binding"
  by code_simp

lemma sidecar_variants: "populated_variants sidecar_binding = [''Endpoint'', ''Container'']"
  by (simp add: populated_variants_def sidecar_binding_def)

text \<open>
  Claim C1, as the spec states it: a binding with two or more populated variants is an
  error, \<open>AmbiguousBinding\<close>. The source documents a binding with two populated
  variants as the way to run a container as a sidecar (\<open>action_types.go\<close>, lines 71 to
  83: an \<open>Endpoint\<close> with the scheme \<open>container\<close> together with the \<open>Container\<close> it
  names). That binding is read from its document without error, and the \<open>Endpoint\<close> and
  the \<open>Container\<close> variant are both populated in it.
\<close>

theorem C1_documented_binding_has_two_variants:
  "unmarshal_ImplementationSpec example_imports sidecar_document = Some sidecar_binding
   \<and> populated_variants sidecar_binding = [''Endpoint'', ''Container'']
   \<and> length (populated_variants sidecar_binding) = 2"
  using sidecar_reads sidecar_variants by simp

text \<open>
  Claim C1, amended. The three variants of a binding are pointers that are nil or not,
  each on its own: the number of populated variants is the number of the pointers that
  are not nil, and a document of a binding with any of the three members \<open>Endpoint\<close>,
  \<open>Container\<close> and \<open>Dependency\<close>, none and all three included, is read without error
  as the binding with just these variants populated.
\<close>

theorem C1_variants_are_independent:
  "unmarshal_ImplementationSpec z (binding_document e c d) = Some (binding_value z e c d)
   \<and> populated_variants (binding_value z e c d) =
        (if e then [''Endpoint''] else []) @ (if c then [''Container''] else [])
        @ (if d then [''Dependency''] else [])
   \<and> length (populated_variants i) =
        (if ImplementationSpec_Endpoint i = None then 0 else 1)
        + (if ImplementationSpec_Container i = None then 0 else 1)
        + (if ImplementationSpec_Dependency i = None then 0 else 1)"
proof -
  have "unmarshal_ImplementationSpec z (binding_document e c d) = Some (binding_value z e c d)"
    by (cases e; cases c; cases d)
      (simp_all add: binding_document_def binding_value_def object_def
        fields_ImplementationSpec_def dec_pointer_def zero_Endpoint_def
        zero_Container_struct_def zero_Dependency_struct_def)
  moreover have "populated_variants (binding_value z e c d) =
        (if e then [''Endpoint''] else []) @ (if c then [''Container''] else [])
        @ (if d then [''Dependency''] else [])"
    by (simp add: populated_variants_def binding_value_def)
  ultimately show ?thesis
    using length_populated_variants by simp
qed

theorem C1_witness:
  "unmarshal_ImplementationSpec example_imports (object []) = Some zero_ImplementationSpec
   \<and> populated_variants zero_ImplementationSpec = []
   \<and> populated_variants (binding_value example_imports True True True)
       = [''Endpoint'', ''Container'', ''Dependency'']"
  using C1_variants_are_independent [of example_imports False False False]
    C1_variants_are_independent [of example_imports True True True]
  by (simp add: binding_document_def binding_value_def zero_ImplementationSpec_def)

section \<open>Properties of the validation the spec describes\<close>

lemma check_variants_by_count:
  "check_variants p i =
     (if populated_variants i = [] then [MissingBinding p]
      else if length (populated_variants i) = 1 then []
      else [AmbiguousBinding p])"
  by (simp add: check_variants_def split: list.splits)

lemma check_references_kind:
  "e \<in> set (check_references declared p i) \<Longrightarrow> \<exists>q n. e = UnknownParameterReference q n"
  by (auto simp: check_references_def)

lemma check_schema_kind: "e \<in> set (check_schema p s) \<Longrightarrow> e = AmbiguousSchemaSource p"
  by (simp add: check_schema_def split: if_splits)

lemma validate_Inl: "e \<in> set (errors a) \<Longrightarrow> validate a = Inl (errors a)"
  by (auto simp: validate_def)

subsection \<open>References to parameters\<close>

lemma Endpoint_binding_listed:
  assumes "ImplementationSpec_Endpoint i = Some e" and "Endpoint_Parameters e = Some ps"
    and "k < length ps"
  shows "([Key ''Endpoint'', Key ''Parameters'', Index k],
      Endpoint_Parameter_ParameterBinding (ps ! k)) \<in> set (parameter_bindings i)"
proof -
  have "(k, ps ! k) \<in> set (enumerate 0 ps)"
    using assms(3) by (simp add: in_set_enumerate_eq)
  then show ?thesis
    using assms(1,2) by (force simp: parameter_bindings_def)
qed

lemma Container_binding_listed:
  assumes "ImplementationSpec_Container i = Some c" and "Container_Parameters c = Some ps"
    and "k < length ps"
  shows "([Key ''Container'', Key ''Parameters'', Index k],
      Container_Parameter_ParameterBinding (ps ! k)) \<in> set (parameter_bindings i)"
proof -
  have "(k, ps ! k) \<in> set (enumerate 0 ps)"
    using assms(3) by (simp add: in_set_enumerate_eq)
  then show ?thesis
    using assms(1,2) by (force simp: parameter_bindings_def)
qed

lemma unknown_reference_reported:
  assumes "(q, b) \<in> set (parameter_bindings i)" and "ParameterBinding_Name b |\<notin>| declared"
  shows "UnknownParameterReference (p @ q) (ParameterBinding_Name b)
     \<in> set (check_binding declared p i)"
  using assms by (force simp: check_binding_def check_references_def)

lemma reported_reference_unknown:
  assumes "UnknownParameterReference q n \<in> set (check_binding declared p i)"
  shows "n |\<notin>| declared"
proof -
  have "UnknownParameterReference q n \<notin> set (check_variants p i)"
    by (simp add: check_variants_by_count)
  with assms show ?thesis
    by (auto simp: check_binding_def check_references_def)
qed

lemma binding_errors_in_errors:
  "set (check_binding (declared_parameters (Action_Spec a)) binding_path (binding_of a))
     \<subseteq> set (errors a)"
  by (auto simp: errors_def binding_of_def)

lemma meta_errors_in_errors:
  "ActionSpec_Meta (Action_Spec a) = Some m \<Longrightarrow>
     set (check_binding (declared_parameters (Action_Spec a)) meta_path m) \<subseteq> set (errors a)"
  by (auto simp: errors_def)

text \<open>
  Rule 2 as the spec words it answers the binding that the source documents for a
  sidecar, with its two populated variants, by \<open>AmbiguousBinding\<close>.
\<close>

lemma sidecar_against_rule_2:
  "check_variants binding_path sidecar_binding = [AmbiguousBinding binding_path]"
  by (simp add: check_variants_def sidecar_variants)

text \<open>
  The scenarios of section 8 of the spec give the results the spec states: no error for
  \<open>build-image\<close>, \<open>AmbiguousBinding\<close> alone with a second populated variant, and
  \<open>UnknownParameterReference\<close> alone for the binding of \<open>missing\<close>.
\<close>

lemma missing_parameter_scenario:
  "validate_document example_imports build_image_missing_parameter =
     Inl [UnknownParameterReference
            [Key ''spec'', Key ''Container'', Key ''Parameters'', Index 0] ''missing'']"
  by code_simp

lemma build_image_scenario:
  "\<not> isl (validate_document example_imports build_image_document)"
  by code_simp

lemma two_variants_scenario:
  "validate_document example_imports build_image_two_variants = Inl [AmbiguousBinding [Key ''spec'']]"
  by code_simp

text \<open>
  Claim C2. A parameter binding of a populated endpoint or container variant whose
  name is not a key of \<open>Parameters\<close> is answered by \<open>UnknownParameterReference\<close> at the
  path of that binding, and validation then returns the errors and no Action. No such
  error is reported for a name that is a key of \<open>Parameters\<close>.
\<close>

theorem C2_unknown_parameter_reference:
  "(ImplementationSpec_Endpoint (binding_of a) = Some e \<and> Endpoint_Parameters e = Some ps
      \<and> k < length ps
      \<and> ParameterBinding_Name (Endpoint_Parameter_ParameterBinding (ps ! k))
          |\<notin>| declared_parameters (Action_Spec a)
     \<longrightarrow> UnknownParameterReference
           (binding_path @ [Key ''Endpoint'', Key ''Parameters'', Index k])
           (ParameterBinding_Name (Endpoint_Parameter_ParameterBinding (ps ! k)))
           \<in> set (errors a)
         \<and> validate a = Inl (errors a))
   \<and> (ImplementationSpec_Container (binding_of a) = Some c \<and> Container_Parameters c = Some cs
      \<and> j < length cs
      \<and> ParameterBinding_Name (Container_Parameter_ParameterBinding (cs ! j))
          |\<notin>| declared_parameters (Action_Spec a)
     \<longrightarrow> UnknownParameterReference
           (binding_path @ [Key ''Container'', Key ''Parameters'', Index j])
           (ParameterBinding_Name (Container_Parameter_ParameterBinding (cs ! j)))
           \<in> set (errors a)
         \<and> validate a = Inl (errors a))
   \<and> (ActionSpec_Meta (Action_Spec a) = Some m \<and> (q, b) \<in> set (parameter_bindings m)
      \<and> ParameterBinding_Name b |\<notin>| declared_parameters (Action_Spec a)
     \<longrightarrow> UnknownParameterReference (meta_path @ q) (ParameterBinding_Name b) \<in> set (errors a)
         \<and> validate a = Inl (errors a))
   \<and> (UnknownParameterReference r n \<in> set (errors a)
     \<longrightarrow> n |\<notin>| declared_parameters (Action_Spec a))"
proof -
  let ?d = "declared_parameters (Action_Spec a)"
  have endpoint: "UnknownParameterReference
       (binding_path @ [Key ''Endpoint'', Key ''Parameters'', Index k])
       (ParameterBinding_Name (Endpoint_Parameter_ParameterBinding (ps ! k))) \<in> set (errors a)"
    if "ImplementationSpec_Endpoint (binding_of a) = Some e" "Endpoint_Parameters e = Some ps"
      "k < length ps"
      "ParameterBinding_Name (Endpoint_Parameter_ParameterBinding (ps ! k)) |\<notin>| ?d"
    using unknown_reference_reported [OF Endpoint_binding_listed [OF that(1,2,3)] that(4)]
      binding_errors_in_errors by blast
  have container: "UnknownParameterReference
       (binding_path @ [Key ''Container'', Key ''Parameters'', Index j])
       (ParameterBinding_Name (Container_Parameter_ParameterBinding (cs ! j))) \<in> set (errors a)"
    if "ImplementationSpec_Container (binding_of a) = Some c" "Container_Parameters c = Some cs"
      "j < length cs"
      "ParameterBinding_Name (Container_Parameter_ParameterBinding (cs ! j)) |\<notin>| ?d"
    using unknown_reference_reported [OF Container_binding_listed [OF that(1,2,3)] that(4)]
      binding_errors_in_errors by blast
  have meta: "UnknownParameterReference (meta_path @ q) (ParameterBinding_Name b) \<in> set (errors a)"
    if "ActionSpec_Meta (Action_Spec a) = Some m" "(q, b) \<in> set (parameter_bindings m)"
      "ParameterBinding_Name b |\<notin>| ?d"
    using unknown_reference_reported [OF that(2,3)] meta_errors_in_errors [OF that(1)]
    by blast
  have sound: "n |\<notin>| ?d" if "UnknownParameterReference r n \<in> set (errors a)"
    using that
    by (auto simp: errors_def dest: reported_reference_unknown check_schema_kind
        split: option.splits)
  from endpoint container meta sound show ?thesis
    using validate_Inl by blast
qed

theorem C2_witness:
  "UnknownParameterReference [Key ''spec'', Key ''Container'', Key ''Parameters'', Index 0]
       ''missing'' \<in> set (errors missing_parameter_action)
   \<and> validate missing_parameter_action = Inl (errors missing_parameter_action)
   \<and> ''repo'' |\<in>| declared_parameters (Action_Spec missing_parameter_action)"
proof -
  have "ImplementationSpec_Container (binding_of missing_parameter_action)
      = Some missing_parameter_container"
    and "Container_Parameters missing_parameter_container
      = Some [\<lparr>Container_Parameter_ParameterBinding =
                 zero_ParameterBinding\<lparr>ParameterBinding_Name := ''missing''\<rparr>,
               Container_Parameter_Target = Imported fmempty\<rparr>]"
    and "''missing'' |\<notin>| declared_parameters (Action_Spec missing_parameter_action)"
    and "''repo'' |\<in>| declared_parameters (Action_Spec missing_parameter_action)"
    by (simp_all add: missing_parameter_action_def missing_parameter_container_def
        binding_of_def declared_parameters_def zero_ActionSpec_def zero_ImplementationSpec_def)
  then show ?thesis
    using C2_unknown_parameter_reference [of missing_parameter_action _ _ _
        missing_parameter_container
        "[\<lparr>Container_Parameter_ParameterBinding =
             zero_ParameterBinding\<lparr>ParameterBinding_Name := ''missing''\<rparr>,
           Container_Parameter_Target = Imported fmempty\<rparr>]" 0]
    by (simp add: binding_path_def zero_ParameterBinding_def)
qed

end
